theory Spec2Isabelle
  imports Main
begin

section \<open>Strings\<close>

text \<open>
  A Go string is a sequence of bytes, and so is an Isabelle \<open>string\<close>. The functions of
  package \<open>strings\<close> that compare bytes are written out; those that depend on the Unicode
  tables (\<open>ToLower\<close>, \<open>Title\<close>, \<open>TrimSpace\<close>, \<open>unicode.IsUpper\<close>) are fields of the
  environment record below.
\<close>

definition HasPrefix :: "string \<Rightarrow> string \<Rightarrow> bool" where
  "HasPrefix s p = (take (length p) s = p)"

definition TrimPrefix :: "string \<Rightarrow> string \<Rightarrow> string" where
  "TrimPrefix s p = (if HasPrefix s p then drop (length p) s else s)"

fun Contains :: "string \<Rightarrow> string \<Rightarrow> bool" where
  "Contains [] sub = (sub = [])"
| "Contains (c # cs) sub = (HasPrefix (c # cs) sub \<or> Contains cs sub)"

fun Join :: "string list \<Rightarrow> string \<Rightarrow> string" where
  "Join [] sep = []"
| "Join [x] sep = x"
| "Join (x # y # ys) sep = x @ sep @ Join (y # ys) sep"

text \<open>
  \<open>utf8.RuneCountInString\<close>: one rune per well-formed UTF-8 sequence, and one per byte
  that does not start or continue a well-formed sequence.
\<close>

definition contByte :: "nat \<Rightarrow> nat \<Rightarrow> char \<Rightarrow> bool" where
  "contByte lo hi c = (lo \<le> of_char c \<and> of_char c \<le> hi)"

fun runeSize :: "string \<Rightarrow> nat" where
  "runeSize [] = 0"
| "runeSize (c # cs) =
     (let b = (of_char c :: nat) in
      if b < 0x80 then 1
      else if b < 0xC2 \<or> 0xF4 < b then 1
      else if b < 0xE0 then
        (case cs of c1 # _ \<Rightarrow> if contByte 0x80 0xBF c1 then 2 else 1 | _ \<Rightarrow> 1)
      else if b < 0xF0 then
        (case cs of c1 # c2 # _ \<Rightarrow>
           if contByte (if b = 0xE0 then 0xA0 else 0x80) (if b = 0xED then 0x9F else 0xBF) c1
              \<and> contByte 0x80 0xBF c2 then 3 else 1
         | _ \<Rightarrow> 1)
      else
        (case cs of c1 # c2 # c3 # _ \<Rightarrow>
           if contByte (if b = 0xF0 then 0x90 else 0x80) (if b = 0xF4 then 0x8F else 0xBF) c1
              \<and> contByte 0x80 0xBF c2 \<and> contByte 0x80 0xBF c3 then 4 else 1
         | _ \<Rightarrow> 1))"

function RuneCountInString :: "string \<Rightarrow> nat" where
  "RuneCountInString s = (if s = [] then 0 else Suc (RuneCountInString (drop (runeSize s) s)))"
  by pat_completeness auto
termination
proof (relation "measure length")
  show "wf (measure length)" by simp
next
  fix s :: string
  assume ne: "s \<noteq> []"
  then have "0 < runeSize s" by (cases s) (auto simp: Let_def split: list.splits)
  with ne show "(drop (runeSize s) s, s) \<in> measure length" by simp
qed

declare RuneCountInString.simps [simp del]

subsection \<open>Helpers of the repository that are not among the given sources\<close>

text \<open>
  The Unicode white space that is ASCII: tab, line feed, vertical tab, form feed,
  carriage return and space.
\<close>

definition isSpace :: "char \<Rightarrow> bool" where
  "isSpace c = (c \<in> set [CHR 0x09, CHR 0x0A, CHR 0x0B, CHR 0x0C, CHR 0x0D, CHR 0x20])"

fun FieldsFrom :: "string \<Rightarrow> string \<Rightarrow> string list" where
  "FieldsFrom cur [] = (if cur = [] then [] else [cur])"
| "FieldsFrom cur (c # cs) =
     (if isSpace c then (if cur = [] then FieldsFrom [] cs else cur # FieldsFrom [] cs)
      else FieldsFrom (cur @ [c]) cs)"

definition Fields :: "string \<Rightarrow> string list" where
  "Fields s = FieldsFrom [] s"

text \<open>
  Modelled from the spec: \<open>strNormalize\<close> is missing from the sources. The spec calls it
  normalization by white-space collapse: leading and trailing white space goes, and every
  inner run of white space becomes one space.
\<close>

definition strNormalize :: "string \<Rightarrow> string" where
  "strNormalize s = Join (Fields s) '' ''"

text \<open>
  Modelled from the spec: \<open>strWordCount\<close> is missing from the sources. The spec uses it
  for "is a single word": the number of white-space separated words.
\<close>

definition strWordCount :: "string \<Rightarrow> nat" where
  "strWordCount s = length (Fields s)"

text \<open>
  Modelled from the spec: \<open>strOr\<close> is missing from the sources. The spec's
  \<open>fill_if_empty\<close>: the first argument that is not empty, or the empty string.
\<close>

fun strOr :: "string list \<Rightarrow> string" where
  "strOr [] = []"
| "strOr (a # as) = (if a \<noteq> [] then a else strOr as)"

text \<open>
  Modelled from the spec: \<open>strIn\<close> is missing from the sources. The spec's "matches the
  set": the string is one of the listed strings.
\<close>

definition strIn :: "string \<Rightarrow> string list \<Rightarrow> bool" where
  "strIn s args = (s \<in> set args)"

text \<open>
  Modelled from the spec: \<open>isAbsoluteURL\<close> is missing from the sources. The spec's absolute
  URL has a scheme and a host: a non-empty scheme, \<open>://\<close>, and a non-empty host before the
  path, query or fragment.
\<close>

definition isAbsoluteURL :: "string \<Rightarrow> bool" where
  "isAbsoluteURL s =
     (let scheme = takeWhile (\<lambda>c. c \<noteq> CHR '':'') s;
          rest = drop (length scheme) s;
          host = takeWhile (\<lambda>c. c \<notin> set ''/?#'') (drop 3 rest)
      in scheme \<noteq> [] \<and> CHR ''/'' \<notin> set scheme \<and> HasPrefix rest ''://'' \<and> host \<noteq> [])"

section \<open>The parsed HTML tree\<close>

datatype node =
    Document "node list"
  | Element string "(string \<times> string) list" "node list"
  | TextNode string

text \<open>\<open>dom.GetAttribute\<close>: the value of the attribute, the empty string when it is absent.\<close>

fun GetAttribute :: "node \<Rightarrow> string \<Rightarrow> string" where
  "GetAttribute (Element t as cs) k = (case map_of as k of Some v \<Rightarrow> v | None \<Rightarrow> [])"
| "GetAttribute _ k = []"

fun hasAttribute :: "node \<Rightarrow> string \<Rightarrow> bool" where
  "hasAttribute (Element t as cs) k = (map_of as k \<noteq> None)"
| "hasAttribute _ k = False"

fun isElement :: "node \<Rightarrow> string \<Rightarrow> bool" where
  "isElement (Element t as cs) tg = (t = tg)"
| "isElement _ tg = False"

text \<open>\<open>dom.TextContent\<close>: the text nodes under the node, in document order.\<close>

fun TextContent :: "node \<Rightarrow> string" where
  "TextContent (TextNode s) = s"
| "TextContent (Element t as cs) = concat (map TextContent cs)"
| "TextContent (Document cs) = concat (map TextContent cs)"

text \<open>
  The nodes below a node in document order, each with the tags of its ancestors, the
  parent first. A selector is a predicate on such a pair; \<open>dom.QuerySelectorAll\<close> keeps
  the nodes that satisfy it, \<open>dom.QuerySelector\<close> the first of them.
\<close>

fun descendants :: "string list \<Rightarrow> node \<Rightarrow> (string list \<times> node) list" where
  "descendants anc (Document cs) = concat (map (\<lambda>c. (anc, c) # descendants anc c) cs)"
| "descendants anc (Element t as cs) =
     concat (map (\<lambda>c. (t # anc, c) # descendants (t # anc) c) cs)"
| "descendants anc (TextNode s) = []"

type_synonym selector = "string list \<times> node \<Rightarrow> bool"

definition QuerySelectorAll :: "node \<Rightarrow> selector \<Rightarrow> node list" where
  "QuerySelectorAll doc sel = map snd (filter sel (descendants [] doc))"

definition QuerySelector :: "node \<Rightarrow> selector \<Rightarrow> node option" where
  "QuerySelector doc sel = (case QuerySelectorAll doc sel of [] \<Rightarrow> None | n # _ \<Rightarrow> Some n)"

text \<open>The selectors that the source writes as literals.\<close>

definition sel_tag :: "string \<Rightarrow> selector" where
  \<comment> \<open>\<^verbatim>\<open>h1\<close>, \<^verbatim>\<open>h2\<close>\<close>
  "sel_tag tg = (\<lambda>(anc, n). isElement n tg)"

definition sel_has_attr :: "string \<Rightarrow> string \<Rightarrow> selector" where
  \<comment> \<open>\<^verbatim>\<open>meta[content]\<close>\<close>
  "sel_has_attr tg k = (\<lambda>(anc, n). isElement n tg \<and> hasAttribute n k)"

definition sel_attr_prefix :: "string \<Rightarrow> string \<Rightarrow> string \<Rightarrow> selector" where
  \<comment> \<open>\<^verbatim>\<open>meta[property^="og:"]\<close>\<close>
  "sel_attr_prefix tg k p =
     (\<lambda>(anc, n). isElement n tg \<and> hasAttribute n k \<and> p \<noteq> [] \<and> HasPrefix (GetAttribute n k) p)"

definition sel_attr_eq :: "string \<Rightarrow> string \<Rightarrow> string \<Rightarrow> selector" where
  \<comment> \<open>\<^verbatim>\<open>script[type="application/ld+json"]\<close>\<close>
  "sel_attr_eq tg k v = (\<lambda>(anc, n). isElement n tg \<and> hasAttribute n k \<and> GetAttribute n k = v)"

definition sel_under :: "string \<Rightarrow> selector \<Rightarrow> selector" where
  \<comment> \<open>\<^verbatim>\<open>head link[rel="canonical"]\<close>: the descendant combinator\<close>
  "sel_under tg sel = (\<lambda>(anc, n). tg \<in> set anc \<and> sel (anc, n))"

definition sel_child_of :: "string \<Rightarrow> selector \<Rightarrow> selector" where
  \<comment> \<open>\<^verbatim>\<open>head > title\<close>: the child combinator\<close>
  "sel_child_of tg sel = (\<lambda>(anc, n). (case anc of [] \<Rightarrow> False | p # _ \<Rightarrow> p = tg) \<and> sel (anc, n))"

section \<open>JSON values\<close>

text \<open>
  What \<open>encoding/json\<close> decodes into \<open>interface{}\<close>. An object is the list of the
  entries of the decoded Go map, so its keys are distinct; a number keeps its text, which
  the extractor never reads.
\<close>

datatype json =
    JNull
  | JBool bool
  | JNumber string
  | JString string
  | JArray "json list"
  | JObject "(string \<times> json) list"

type_synonym jobject = "(string \<times> json) list"

section \<open>The record and the environment\<close>

record Metadata =
  Title :: string
  Author :: string
  URL :: string
  Hostname :: string
  Description :: string
  Sitename :: string
  Date :: string
  Categories :: "string list"
  Tags :: "string list"

definition emptyMetadata :: Metadata where
  "emptyMetadata = \<lparr>Title = [], Author = [], URL = [], Hostname = [], Description = [],
     Sitename = [], Date = [], Categories = [], Tags = []\<rparr>"

text \<open>
  What the extractor takes from outside \<open>metadata.go\<close> and what cannot be written from the
  spec's words is a field of the environment; every theorem below holds for every
  environment.
  \<^item> The Unicode-aware functions of the Go library. \<open>firstRuneIsUpper s\<close> is
    \<open>unicode.IsUpper(getRune(s, 0))\<close>.
  \<^item> \<open>json_decode\<close>: the JSON value of a text, \<open>None\<close> for a syntax error.
  \<^item> \<open>rangeRank\<close>: Go iterates over a map in an order it does not specify. A \<open>range\<close>
    over an object visits its entries sorted by the rank the environment gives to their
    keys; every order of the entries is the order of some rank.
  \<^item> The four selector tables, which are not among the sources: each selector is given
    by the nodes \<open>dom.QuerySelectorAll\<close> returns for it.
  \<^item> The helpers \<open>createAbsoluteURL\<close> and \<open>extractDomainURL\<close>; the default URL is given by
    its text (\<open>defaultURL.String()\<close>), \<open>None\<close> for a nil pointer.
  \<^item> The regular expressions, but for the three written out below. A field with suffix
    \<open>_1\<close> is \<open>FindStringSubmatch\<close> read at index 1 (\<open>_0\<close>: at index 0), \<open>None\<close> when
    there is no match; a field with suffix \<open>_Replace\<close> is \<open>ReplaceAllString\<close> with the
    empty replacement.
\<close>

record env =
  strings_ToLower :: "string \<Rightarrow> string"
  strings_Title :: "string \<Rightarrow> string"
  strings_TrimSpace :: "string \<Rightarrow> string"
  firstRuneIsUpper :: "string \<Rightarrow> bool"
  json_decode :: "string \<Rightarrow> json option"
  rangeRank :: "jobject \<Rightarrow> string \<Rightarrow> nat"
  metaTitleSelectors :: "(node \<Rightarrow> node list) list"
  metaAuthorSelectors :: "(node \<Rightarrow> node list) list"
  metaCategoriesSelectors :: "(node \<Rightarrow> node list) list"
  metaTagsSelectors :: "(node \<Rightarrow> node list) list"
  createAbsoluteURL :: "string \<Rightarrow> string option \<Rightarrow> string"
  extractDomainURL :: "string \<Rightarrow> string"
  rxTitleCleaner_1 :: "string \<Rightarrow> string option"
  rxNameJson_1 :: "string \<Rightarrow> string option"
  rxAuthorCleaner1_Replace :: "string \<Rightarrow> string"
  rxAuthorCleaner2_Replace :: "string \<Rightarrow> string"
  rxAuthorCleaner3_Replace :: "string \<Rightarrow> string"
  rxDomainFinder_0 :: "string \<Rightarrow> string option"
  rxSitenameFinder1_1 :: "string \<Rightarrow> string option"
  rxSitenameFinder2_1 :: "string \<Rightarrow> string option"

section \<open>Regular expressions written out\<close>

text \<open>\<open>rxJsonSymbol\<close>, \<^verbatim>\<open>[{\\}]\<close>: some byte is a brace or a backslash.\<close>

definition rxJsonSymbol_MatchString :: "string \<Rightarrow> bool" where
  "rxJsonSymbol_MatchString s = (\<exists>c \<in> set s. c = CHR ''{'' \<or> c = CHR 0x5C \<or> c = CHR ''}'')"

text \<open>
  \<open>rxUrlCheck\<close>, \<^verbatim>\<open>(?i)https?://|/\<close>: the second alternative matches a slash alone and
  every match of the first contains one, so the expression matches the strings that
  contain a slash.
\<close>

definition rxUrlCheck_MatchString :: "string \<Rightarrow> bool" where
  "rxUrlCheck_MatchString s = (CHR ''/'' \<in> set s)"

text \<open>
  \<open>rxCommaSeparator\<close>, \<^verbatim>\<open>\s*[,;]\s*\<close>, with \<open>Split(entry, -1)\<close>. The class \<^verbatim>\<open>\s\<close> is
  tab, line feed, form feed, carriage return and space. A match starts at a position from
  which a run of such bytes, possibly empty, leads to a comma or semicolon; it takes the
  run, the separator and the run after it. \<open>Split\<close> returns the pieces between the
  matches, the last one too, and the whole string when nothing matches.
\<close>

definition rxSpace :: "char \<Rightarrow> bool" where
  "rxSpace c = (c \<in> set [CHR 0x09, CHR 0x0A, CHR 0x0C, CHR 0x0D, CHR 0x20])"

definition isSeparator :: "char \<Rightarrow> bool" where
  "isSeparator c = (c = CHR '','' \<or> c = CHR '';'')"

definition separatorAt :: "string \<Rightarrow> bool" where
  "separatorAt s = (case dropWhile rxSpace s of [] \<Rightarrow> False | c # _ \<Rightarrow> isSeparator c)"

definition afterSeparator :: "string \<Rightarrow> string" where
  "afterSeparator s = dropWhile rxSpace (tl (dropWhile rxSpace s))"

function SplitFrom :: "string \<Rightarrow> string \<Rightarrow> string list" where
  "SplitFrom cur s =
     (if s = [] then [cur]
      else if separatorAt s then cur # SplitFrom [] (afterSeparator s)
      else SplitFrom (cur @ [hd s]) (tl s))"
  by pat_completeness auto
termination
proof (relation "measure (\<lambda>(cur, s). length s)")
  show "wf (measure (\<lambda>(cur, s). length s))" by simp
next
  fix cur :: string and s :: string
  assume ne: "s \<noteq> []" and sep: "separatorAt s"
  from sep obtain c cs where d: "dropWhile rxSpace s = c # cs"
    by (auto simp: separatorAt_def split: list.splits)
  have "length (dropWhile rxSpace cs) \<le> length cs" by (rule length_dropWhile_le)
  moreover have "length (c # cs) \<le> length s" using length_dropWhile_le [of rxSpace s] d by simp
  ultimately show "(([], afterSeparator s), (cur, s)) \<in> measure (\<lambda>(cur, s). length s)"
    by (simp add: afterSeparator_def d)
next
  fix cur :: string and s :: string
  assume "s \<noteq> []"
  then show "((cur @ [hd s], tl s), (cur, s)) \<in> measure (\<lambda>(cur, s). length s)"
    by (cases s) auto
qed

declare SplitFrom.simps [simp del]

definition rxCommaSeparator_Split :: "string \<Rightarrow> string list" where
  "rxCommaSeparator_Split s = SplitFrom [] s"

section \<open>Meta tags\<close>

definition metaNameAuthor :: "string list" where
  "metaNameAuthor = [''author'', ''byl'', ''dc.creator'', ''dcterms.creator'', ''sailthru.author'']"

definition metaNameTitle :: "string list" where
  "metaNameTitle = [''title'', ''dc.title'', ''dcterms.title'', ''fb_title'', ''sailthru.title'',
     ''twitter:title'']"

definition metaNameDescription :: "string list" where
  "metaNameDescription = [''description'', ''dc.description'', ''dcterms.description'',
     ''dc:description'', ''sailthru.description'', ''twitter:description'']"

definition metaNamePublisher :: "string list" where
  "metaNamePublisher = [''copyright'', ''dc.publisher'', ''dcterms.publisher'', ''publisher'']"

definition validateMetadataAuthor :: "string \<Rightarrow> string" where
  "validateMetadataAuthor author =
     (if author = [] then author
      else if \<not> Contains author '' '' \<or> HasPrefix author ''http'' then []
      else if rxJsonSymbol_MatchString author then []
      else author)"

text \<open>The body of the loop of \<open>extractOpenGraphMeta\<close>, for one node.\<close>

definition openGraphNode :: "Metadata \<Rightarrow> node \<Rightarrow> Metadata" where
  "openGraphNode metadata node =
     (let propName = strNormalize (GetAttribute node ''property'');
          content = strNormalize (GetAttribute node ''content'')
      in if content = [] then metadata
         else if propName = ''og:site_name'' then metadata\<lparr>Sitename := content\<rparr>
         else if propName = ''og:title'' then metadata\<lparr>Title := content\<rparr>
         else if propName = ''og:description'' then metadata\<lparr>Description := content\<rparr>
         else if propName = ''og:author'' \<or> propName = ''og:article:author''
           then metadata\<lparr>Author := content\<rparr>
         else if propName = ''og:url''
           then (if isAbsoluteURL content then metadata\<lparr>URL := content\<rparr> else metadata)
         else metadata)"

definition extractOpenGraphMeta :: "node \<Rightarrow> Metadata" where
  "extractOpenGraphMeta doc =
     foldl openGraphNode emptyMetadata
       (QuerySelectorAll doc (sel_attr_prefix ''meta'' ''property'' ''og:''))"

text \<open>
  The body of the scan of \<open>processMetaTags\<close>, for one node; the state is the record and
  the local \<open>tmpSitename\<close>.
\<close>

definition metaTagNode :: "env \<Rightarrow> Metadata \<times> string \<Rightarrow> node \<Rightarrow> Metadata \<times> string" where
  "metaTagNode e st node =
     (let metadata = fst st; tmpSitename = snd st;
          content = strNormalize (GetAttribute node ''content'')
      in if content = [] then st
      else let property = strNormalize (GetAttribute node ''property'')
      in if property \<noteq> [] then
           (if HasPrefix property ''og:'' then st
            else if property = ''article:tag''
              then (metadata\<lparr>Tags := Tags metadata @ [content]\<rparr>, tmpSitename)
            else if strIn property [''author'', ''article:author'']
              then (metadata\<lparr>Author := strOr [Author metadata, content]\<rparr>, tmpSitename)
            else st)
      else let name = strNormalize (strings_ToLower e (GetAttribute node ''name''))
      in if name \<noteq> [] then
           (if strIn name metaNameAuthor
              then (metadata\<lparr>Author := strOr [Author metadata, content]\<rparr>, tmpSitename)
            else if strIn name metaNameTitle
              then (metadata\<lparr>Title := strOr [Title metadata, content]\<rparr>, tmpSitename)
            else if strIn name metaNameDescription
              then (metadata\<lparr>Description := strOr [Description metadata, content]\<rparr>, tmpSitename)
            else if strIn name metaNamePublisher
              then (metadata\<lparr>Sitename := strOr [Sitename metadata, content]\<rparr>, tmpSitename)
            else if strIn name [''twitter:site'', ''application-name'']
                    \<or> Contains name ''twitter:app:name''
              then (metadata, content)
            else if name = ''twitter:url''
              then (if URL metadata = [] \<and> isAbsoluteURL content
                    then (metadata\<lparr>URL := content\<rparr>, tmpSitename) else st)
            else if name = ''keywords''
              then (metadata\<lparr>Tags := Tags metadata @ [content]\<rparr>, tmpSitename)
            else st)
      else let itemprop = strNormalize (GetAttribute node ''itemprop'')
      in if itemprop = ''author''
           then (metadata\<lparr>Author := strOr [Author metadata, content]\<rparr>, tmpSitename)
         else if itemprop = ''description''
           then (metadata\<lparr>Description := strOr [Description metadata, content]\<rparr>, tmpSitename)
         else if itemprop = ''headline''
           then (metadata\<lparr>Title := strOr [Title metadata, content]\<rparr>, tmpSitename)
         else st)"

definition allOpenGraphAssigned :: "Metadata \<Rightarrow> bool" where
  "allOpenGraphAssigned metadata =
     (Title metadata \<noteq> [] \<and> Author metadata \<noteq> [] \<and> URL metadata \<noteq> []
      \<and> Description metadata \<noteq> [] \<and> Sitename metadata \<noteq> [])"

definition processMetaTags :: "env \<Rightarrow> node \<Rightarrow> Metadata" where
  "processMetaTags e doc =
     (let metadata = extractOpenGraphMeta doc
      in if allOpenGraphAssigned metadata then metadata
      else let st = foldl (metaTagNode e) (metadata, [])
                      (QuerySelectorAll doc (sel_has_attr ''meta'' ''content''));
               metadata = fst st; tmpSitename = snd st;
               metadata = (if Sitename metadata = [] \<and> tmpSitename \<noteq> []
                           then metadata\<lparr>Sitename := tmpSitename\<rparr> else metadata)
      in metadata\<lparr>Author := validateMetadataAuthor (Author metadata)\<rparr>)"

section \<open>JSON-LD\<close>

text \<open>A \<open>range\<close> over a Go map: the entries in the order of the environment's rank.\<close>

definition rangeOver :: "env \<Rightarrow> jobject \<Rightarrow> jobject" where
  "rangeOver e obj = sort_key (\<lambda>kv. rangeRank e obj (fst kv)) obj"

text \<open>
  \<open>json.Unmarshal\<close> into a \<open>map[string]interface{}\<close>: an object gives its map, \<open>null\<close>
  leaves the map empty without an error, every other value and every syntax error is an
  error.
\<close>

definition Unmarshal :: "env \<Rightarrow> string \<Rightarrow> jobject option" where
  "Unmarshal e text =
     (case json_decode e text of
        Some (JObject obj) \<Rightarrow> Some obj
      | Some JNull \<Rightarrow> Some []
      | _ \<Rightarrow> None)"

fun extractJsonString :: "json \<Rightarrow> string" where
  "extractJsonString (JString s) = strNormalize s"
| "extractJsonString _ = []"

text \<open>The name of one entry of an array, as a list of at most one name.\<close>

fun arrayEntryName :: "json \<Rightarrow> string list" where
  "arrayEntryName (JString entryVal) = [strNormalize entryVal]"
| "arrayEntryName (JObject entryVal) =
     (case map_of entryVal ''name'' of
        Some iName \<Rightarrow> (let name = extractJsonString iName in if name \<noteq> [] then [name] else [])
      | None \<Rightarrow> [])"
| "arrayEntryName _ = []"

fun extractJsonThingName :: "env \<Rightarrow> json \<Rightarrow> string list \<Rightarrow> string" where
  "extractJsonThingName e (JString val) allowedTypes =
     (if rxJsonSymbol_MatchString val
      then (case rxNameJson_1 e val of None \<Rightarrow> [] | Some m \<Rightarrow> strNormalize m)
      else strNormalize val)"
| "extractJsonThingName e (JObject val) allowedTypes =
     (if allowedTypes \<noteq> []
         \<and> (case map_of val ''@type'' of
              Some (JString strObjType) \<Rightarrow> \<not> strIn strObjType allowedTypes
            | _ \<Rightarrow> False)
      then []
      else (case map_of val ''name'' of
              Some iName \<Rightarrow> extractJsonString iName
            | None \<Rightarrow> []))"
| "extractJsonThingName e (JArray val) allowedTypes =
     (let names = concat (map arrayEntryName val)
      in if names \<noteq> [] then Join names ''; '' else [])"
| "extractJsonThingName e _ allowedTypes = []"

definition extractJsonArticleThingName :: "env \<Rightarrow> jobject \<Rightarrow> string \<Rightarrow> string list \<Rightarrow> string" where
  "extractJsonArticleThingName e article key allowedTypes =
     (case map_of article key of
        None \<Rightarrow> []
      | Some v \<Rightarrow> extractJsonThingName e v allowedTypes)"

definition isArticleType :: "string \<Rightarrow> bool" where
  "isArticleType strObjType =
     (Contains strObjType ''Article'' \<or> strObjType = ''SocialMediaPosting''
      \<or> strObjType = ''Report'')"

definition stringType :: "jobject \<Rightarrow> string option" where
  "stringType obj = (case map_of obj ''@type'' of Some (JString t) \<Rightarrow> Some t | _ \<Rightarrow> None)"

definition collect :: "('a list \<times> 'b list) list \<Rightarrow> 'a list \<times> 'b list" where
  "collect rs = (concat (map fst rs), concat (map snd rs))"

text \<open>
  The closure \<open>findImportantObjects\<close>: the articles and the persons under an object, each
  list in the order in which the closure appends to it.
\<close>

function findImportantObjects :: "env \<Rightarrow> jobject \<Rightarrow> jobject list \<times> jobject list" where
  "findImportantObjects e obj =
     (if (case stringType obj of Some t \<Rightarrow> isArticleType t | None \<Rightarrow> False) then ([obj], [])
      else if stringType obj = Some ''Person'' then ([], [obj])
      else collect (map (\<lambda>kv.
             case snd kv of
               JObject v \<Rightarrow> findImportantObjects e v
             | JArray v \<Rightarrow>
                 collect (map (\<lambda>item.
                   case item of
                     JObject itemObject \<Rightarrow> findImportantObjects e itemObject
                   | _ \<Rightarrow> ([], [])) v)
             | _ \<Rightarrow> ([], [])) (rangeOver e obj)))"
  by pat_completeness auto
termination
proof (relation "measure (\<lambda>(e, obj). size (JObject obj))")
  show "wf (measure (\<lambda>(e, obj). size (JObject obj)))" by simp
next
  fix e :: env and obj :: jobject and kv :: "string \<times> json" and v :: jobject
  assume "kv \<in> set (rangeOver e obj)" and "snd kv = JObject v"
  then have "(fst kv, JObject v) \<in> set obj"
    by (metis prod.collapse rangeOver_def set_sort)
  then have "size (JObject v) < size (JObject obj)"
    by (induction obj) auto
  then show "((e, v), (e, obj)) \<in> measure (\<lambda>(e, obj). size (JObject obj))"
    by simp
next
  fix e :: env and obj :: jobject and kv :: "string \<times> json"
    and items :: "json list" and item :: json and itemObject :: jobject
  assume "kv \<in> set (rangeOver e obj)" and "snd kv = JArray items"
    and "item \<in> set items" and "item = JObject itemObject"
  then have entry: "(fst kv, JArray items) \<in> set obj" and elem: "JObject itemObject \<in> set items"
    by (metis prod.collapse rangeOver_def set_sort, simp)
  from entry have "size (JArray items) < size (JObject obj)"
    by (induction obj) auto
  moreover from elem have "size (JObject itemObject) < size (JArray items)"
    by (induction items) auto
  ultimately show "((e, itemObject), (e, obj)) \<in> measure (\<lambda>(e, obj). size (JObject obj))"
    by simp
qed

declare findImportantObjects.simps [simp del]

text \<open>The headline loop: the first entry, in the order of the \<open>range\<close>, that gives a title.\<close>

fun headlineTitle :: "env \<Rightarrow> jobject \<Rightarrow> string option" where
  "headlineTitle e [] = None"
| "headlineTitle e (kv # rest) =
     (if \<not> Contains (strings_ToLower e (fst kv)) ''headline'' then headlineTitle e rest
      else let title = extractJsonString (snd kv)
           in if title = [] \<or> Contains title ''...'' then headlineTitle e rest
              else Some title)"

text \<open>
  The body of the loop over the articles, for one article: its five blocks, then the body
  itself.
\<close>

definition articleAuthor :: "env \<Rightarrow> jobject \<Rightarrow> Metadata \<Rightarrow> Metadata" where
  "articleAuthor e article metadata =
     (if Author metadata = []
      then metadata\<lparr>Author := validateMetadataAuthor
             (extractJsonArticleThingName e article ''author'' [''Person''])\<rparr>
      else metadata)"

definition articleSitename :: "env \<Rightarrow> jobject \<Rightarrow> Metadata \<Rightarrow> Metadata" where
  "articleSitename e article metadata =
     (if Sitename metadata = []
      then metadata\<lparr>Sitename := extractJsonArticleThingName e article ''publisher'' []\<rparr>
      else metadata)"

definition articleCategories :: "jobject \<Rightarrow> Metadata \<Rightarrow> Metadata" where
  "articleCategories article metadata =
     (if Categories metadata = []
      then (case map_of article ''articleSection'' of
              Some section \<Rightarrow>
                metadata\<lparr>Categories := Categories metadata @ [extractJsonString section]\<rparr>
            | None \<Rightarrow> metadata)
      else metadata)"

definition articleName :: "jobject \<Rightarrow> Metadata \<Rightarrow> Metadata" where
  "articleName article metadata =
     (if Title metadata = []
      then (case map_of article ''name'' of
              Some name \<Rightarrow> metadata\<lparr>Title := extractJsonString name\<rparr>
            | None \<Rightarrow> metadata)
      else metadata)"

definition articleHeadline :: "env \<Rightarrow> jobject \<Rightarrow> Metadata \<Rightarrow> Metadata" where
  "articleHeadline e article metadata =
     (if Title metadata = [] \<or> strWordCount (Title metadata) = 1
      then (case headlineTitle e (rangeOver e article) of
              Some title \<Rightarrow> metadata\<lparr>Title := title\<rparr>
            | None \<Rightarrow> metadata)
      else metadata)"

definition jsonLdArticle :: "env \<Rightarrow> Metadata \<Rightarrow> jobject \<Rightarrow> Metadata" where
  "jsonLdArticle e metadata article =
     (let metadata = articleAuthor e article metadata;
          metadata = articleSitename e article metadata;
          metadata = articleCategories article metadata;
          metadata = articleName article metadata;
          metadata = articleHeadline e article metadata
      in metadata)"

text \<open>The names of the persons that pass the validation.\<close>

definition personNames :: "env \<Rightarrow> jobject list \<Rightarrow> string list" where
  "personNames e persons =
     filter (\<lambda>personName. personName \<noteq> [])
       (map (\<lambda>person. validateMetadataAuthor (extractJsonThingName e (JObject person) [])) persons)"

text \<open>What one decoded script adds to the record.\<close>

definition jsonLdData :: "env \<Rightarrow> Metadata \<Rightarrow> jobject \<Rightarrow> Metadata" where
  "jsonLdData e metadata0 data =
     (let found = findImportantObjects e data;
          articles = fst found; persons = snd found;
          metadata = foldl (jsonLdArticle e) metadata0 articles
      in if Author metadata = []
         then (let names = personNames e persons
               in if names \<noteq> [] then metadata\<lparr>Author := Join names ''; ''\<rparr> else metadata)
         else metadata)"

definition allJsonLdFound :: "Metadata \<Rightarrow> bool" where
  "allJsonLdFound metadata =
     (Author metadata \<noteq> [] \<and> Sitename metadata \<noteq> [] \<and> Categories metadata \<noteq> []
      \<and> Title metadata \<noteq> [])"

text \<open>
  One round of the loop over the scripts: the record after it, and whether the loop stops
  (\<open>break\<close>). A \<open>continue\<close> leaves the record as it is and goes on.
\<close>

definition jsonLdScript :: "env \<Rightarrow> Metadata \<Rightarrow> node \<Rightarrow> Metadata \<times> bool" where
  "jsonLdScript e metadata script =
     (let jsonLdText = strings_TrimSpace e (TextContent script)
      in if jsonLdText = [] then (metadata, False)
         else (case Unmarshal e jsonLdText of
                 None \<Rightarrow> (metadata, False)
               | Some data \<Rightarrow>
                   (let metadata = jsonLdData e metadata data
                    in (metadata, allJsonLdFound metadata))))"

fun jsonLdScripts :: "env \<Rightarrow> Metadata \<Rightarrow> node list \<Rightarrow> Metadata" where
  "jsonLdScripts e metadata [] = metadata"
| "jsonLdScripts e metadata (script # rest) =
     (let r = jsonLdScript e metadata script
      in if snd r then fst r else jsonLdScripts e (fst r) rest)"

definition scriptNodes :: "node \<Rightarrow> node list" where
  "scriptNodes doc =
     QuerySelectorAll doc (sel_attr_eq ''script'' ''type'' ''application/ld+json'')
     @ QuerySelectorAll doc (sel_attr_eq ''script'' ''type'' ''application/settings+json'')"

text \<open>The record that the loop over the scripts builds, before the merge.\<close>

definition jsonLdMetadata :: "env \<Rightarrow> node \<Rightarrow> Metadata" where
  "jsonLdMetadata e doc = jsonLdScripts e emptyMetadata (scriptNodes doc)"

definition extractJsonLd :: "env \<Rightarrow> node \<Rightarrow> Metadata \<Rightarrow> Metadata" where
  "extractJsonLd e doc originalMetadata0 =
     (let metadata = jsonLdMetadata e doc;
          originalMetadata =
            originalMetadata0\<lparr>Author := strOr [Author metadata, Author originalMetadata0]\<rparr>;
          originalMetadata =
            (if Categories metadata \<noteq> []
             then originalMetadata\<lparr>Categories := Categories metadata\<rparr>
             else originalMetadata);
          originalMetadata =
            (if RuneCountInString (Sitename metadata)
                  > RuneCountInString (Sitename originalMetadata)
             then originalMetadata\<lparr>Sitename := Sitename metadata\<rparr>
             else originalMetadata)
      in if Title originalMetadata = []
         then originalMetadata\<lparr>Title := Title metadata\<rparr>
         else originalMetadata)"

section \<open>Extraction from the DOM\<close>

definition extractDomMetaSelectors :: "node \<Rightarrow> nat \<Rightarrow> (node \<Rightarrow> node list) list \<Rightarrow> string" where
  "extractDomMetaSelectors doc limit selectors =
     (case find (\<lambda>text. text \<noteq> [] \<and> RuneCountInString text < limit)
             (map (\<lambda>node. strNormalize (TextContent node))
                (concat (map (\<lambda>selector. selector doc) selectors))) of
        Some text \<Rightarrow> text
      | None \<Rightarrow> [])"

definition sel_head_title :: selector where
  "sel_head_title = sel_child_of ''head'' (sel_tag ''title'')"

definition extractDomTitle :: "env \<Rightarrow> node \<Rightarrow> string" where
  "extractDomTitle e doc =
     (let h1Nodes = QuerySelectorAll doc (sel_tag ''h1'')
      in case h1Nodes of
           [h1] \<Rightarrow> strNormalize (TextContent h1)
         | _ \<Rightarrow>
           (let title = extractDomMetaSelectors doc 200 (metaTitleSelectors e)
            in if title \<noteq> [] then title
               else (case QuerySelector doc sel_head_title of
                       Some titleNode \<Rightarrow>
                         (let title = strNormalize (TextContent titleNode)
                          in case rxTitleCleaner_1 e title of Some m \<Rightarrow> m | None \<Rightarrow> title)
                     | None \<Rightarrow>
                         (case h1Nodes of
                            h1 # _ \<Rightarrow> strings_TrimSpace e (TextContent h1)
                          | [] \<Rightarrow>
                              (case QuerySelector doc (sel_tag ''h2'') of
                                 Some h2Node \<Rightarrow> strings_TrimSpace e (TextContent h2Node)
                               | None \<Rightarrow> [])))))"

definition extractDomAuthor :: "env \<Rightarrow> node \<Rightarrow> string" where
  "extractDomAuthor e doc =
     (let author = extractDomMetaSelectors doc 75 (metaAuthorSelectors e)
      in if author \<noteq> []
         then strings_Title e
                (rxAuthorCleaner3_Replace e
                  (rxAuthorCleaner2_Replace e (rxAuthorCleaner1_Replace e author)))
         else [])"

text \<open>The href of a link, when it passes the check of \<open>extractDomURL\<close>.\<close>

definition checkedHref :: "node \<Rightarrow> string option" where
  "checkedHref node =
     (let href = strNormalize (GetAttribute node ''href'')
      in if href \<noteq> [] \<and> rxUrlCheck_MatchString href then Some href else None)"

text \<open>The loop that looks for a domain name, up to its \<open>break\<close>.\<close>

fun findDomain :: "env \<Rightarrow> node list \<Rightarrow> string option" where
  "findDomain e [] = None"
| "findDomain e (node # rest) =
     (let nodeName = strNormalize (GetAttribute node ''name'');
          nodeProperty = strNormalize (GetAttribute node ''property'');
          attrType = strOr [nodeName, nodeProperty]
      in if attrType = [] then findDomain e rest
         else if HasPrefix attrType ''og:'' \<or> HasPrefix attrType ''twitter:''
           then (case rxDomainFinder_0 e (strNormalize (GetAttribute node ''content'')) of
                   Some domain \<Rightarrow> Some domain
                 | None \<Rightarrow> findDomain e rest)
         else findDomain e rest)"

definition stringOfURL :: "string option \<Rightarrow> string" where
  "stringOfURL defaultURL = (case defaultURL of Some u \<Rightarrow> u | None \<Rightarrow> [])"

definition extractDomURL :: "env \<Rightarrow> node \<Rightarrow> string option \<Rightarrow> string" where
  "extractDomURL e doc defaultURL =
     (let url =
            (case QuerySelector doc (sel_under ''head'' (sel_attr_eq ''link'' ''rel'' ''canonical'')) of
               Some linkNode \<Rightarrow> (case checkedHref linkNode of Some href \<Rightarrow> href | None \<Rightarrow> [])
             | None \<Rightarrow>
                 foldl (\<lambda>url node.
                          if GetAttribute node ''hreflang'' = ''x-default''
                          then (case checkedHref node of Some href \<Rightarrow> href | None \<Rightarrow> url)
                          else url)
                   [] (QuerySelectorAll doc (sel_under ''head'' (sel_attr_eq ''link'' ''rel'' ''alternate''))));
          url =
            (if url \<noteq> [] \<and> HasPrefix url ''/''
             then (case findDomain e
                          (QuerySelectorAll doc (sel_under ''head'' (sel_has_attr ''meta'' ''content''))) of
                     Some domain \<Rightarrow> domain @ url
                   | None \<Rightarrow> url)
             else url)
      in if url \<noteq> [] \<and> isAbsoluteURL url then url
         else if url \<noteq> [] \<and> isAbsoluteURL (createAbsoluteURL e url defaultURL)
           then createAbsoluteURL e url defaultURL
         else stringOfURL defaultURL)"

definition extractDomSitename :: "env \<Rightarrow> node \<Rightarrow> string" where
  "extractDomSitename e doc =
     (case QuerySelector doc sel_head_title of
        None \<Rightarrow> []
      | Some titleNode \<Rightarrow>
          (let titleText = strNormalize (TextContent titleNode)
           in if titleText = [] then []
              else (case rxSitenameFinder1_1 e titleText of Some m \<Rightarrow> m | None \<Rightarrow> [])))"

text \<open>
  The texts of the links that one selector gives and whose href contains the path part;
  then the loop over the selectors, which stops at the first selector that gives any.
\<close>

definition linkTexts :: "env \<Rightarrow> string \<Rightarrow> node list \<Rightarrow> string list" where
  "linkTexts e part nodes =
     filter (\<lambda>text. text \<noteq> [])
       (map (\<lambda>node. strNormalize (TextContent node))
          (filter (\<lambda>node. let href = strings_TrimSpace e (GetAttribute node ''href'')
                           in href \<noteq> [] \<and> Contains href part) nodes))"

fun firstLinkTexts :: "env \<Rightarrow> string \<Rightarrow> node \<Rightarrow> (node \<Rightarrow> node list) list \<Rightarrow> string list" where
  "firstLinkTexts e part doc [] = []"
| "firstLinkTexts e part doc (selector # rest) =
     (let texts = linkTexts e part (selector doc)
      in if texts \<noteq> [] then texts else firstLinkTexts e part doc rest)"

definition extractDomCategories :: "env \<Rightarrow> node \<Rightarrow> string list" where
  "extractDomCategories e doc =
     (let categories = firstLinkTexts e ''/category/'' doc (metaCategoriesSelectors e)
      in if categories = []
         then (case QuerySelector doc
                      (sel_under ''head'' (sel_attr_eq ''meta'' ''property'' ''article:section'')) of
                 Some node \<Rightarrow>
                   (let content = strNormalize (GetAttribute node ''content'')
                    in if content \<noteq> [] then [content] else [])
               | None \<Rightarrow> [])
         else categories)"

definition extractDomTags :: "env \<Rightarrow> node \<Rightarrow> string list" where
  "extractDomTags e doc = firstLinkTexts e ''/tags/'' doc (metaTagsSelectors e)"

definition cleanCatTags :: "string list \<Rightarrow> string list" where
  "cleanCatTags catTags =
     concat (map (\<lambda>entry. filter (\<lambda>item. item \<noteq> [])
                            (map strNormalize (rxCommaSeparator_Split entry))) catTags)"

section \<open>The extractor\<close>

text \<open>The normalisation of the site name in \<open>extractMetadata\<close>.\<close>

definition normalizeSitename :: "env \<Rightarrow> string \<Rightarrow> string" where
  "normalizeSitename e sitename0 =
     (let sitename = (if HasPrefix sitename0 ''@'' then TrimPrefix sitename0 ''@'' else sitename0)
      in if \<not> Contains sitename ''.'' \<and> \<not> firstRuneIsUpper e sitename
         then strings_Title e sitename
         else sitename)"

text \<open>
  The steps of \<open>extractMetadata\<close> after the meta tags and JSON-LD, one for each block of
  the source, in the order of the source.
\<close>

definition fillTitle :: "env \<Rightarrow> node \<Rightarrow> Metadata \<Rightarrow> Metadata" where
  "fillTitle e doc metadata =
     (if Title metadata = [] then metadata\<lparr>Title := extractDomTitle e doc\<rparr> else metadata)"

definition fillAuthor :: "env \<Rightarrow> node \<Rightarrow> Metadata \<Rightarrow> Metadata" where
  "fillAuthor e doc metadata =
     (if Author metadata = [] then metadata\<lparr>Author := extractDomAuthor e doc\<rparr> else metadata)"

definition fillURL :: "env \<Rightarrow> node \<Rightarrow> string option \<Rightarrow> Metadata \<Rightarrow> Metadata" where
  "fillURL e doc defaultURL metadata =
     (if URL metadata = [] then metadata\<lparr>URL := extractDomURL e doc defaultURL\<rparr>
      else metadata)"

definition fillHostname :: "env \<Rightarrow> Metadata \<Rightarrow> Metadata" where
  "fillHostname e metadata =
     (if URL metadata \<noteq> [] then metadata\<lparr>Hostname := extractDomainURL e (URL metadata)\<rparr>
      else metadata)"

definition fillSitename :: "env \<Rightarrow> node \<Rightarrow> Metadata \<Rightarrow> Metadata" where
  "fillSitename e doc metadata =
     (if Sitename metadata = [] then metadata\<lparr>Sitename := extractDomSitename e doc\<rparr>
      else metadata)"

definition finishSitename :: "env \<Rightarrow> Metadata \<Rightarrow> Metadata" where
  "finishSitename e metadata =
     (if Sitename metadata \<noteq> []
      then metadata\<lparr>Sitename := normalizeSitename e (Sitename metadata)\<rparr>
      else if URL metadata \<noteq> []
        then (case rxSitenameFinder2_1 e (URL metadata) of
                Some m \<Rightarrow> metadata\<lparr>Sitename := m\<rparr>
              | None \<Rightarrow> metadata)
      else metadata)"

definition fillCategories :: "env \<Rightarrow> node \<Rightarrow> Metadata \<Rightarrow> Metadata" where
  "fillCategories e doc metadata =
     (let metadata = (if Categories metadata = []
                      then metadata\<lparr>Categories := extractDomCategories e doc\<rparr> else metadata)
      in if Categories metadata \<noteq> []
         then metadata\<lparr>Categories := cleanCatTags (Categories metadata)\<rparr> else metadata)"

definition fillTags :: "env \<Rightarrow> node \<Rightarrow> Metadata \<Rightarrow> Metadata" where
  "fillTags e doc metadata =
     (let metadata = (if Tags metadata = []
                      then metadata\<lparr>Tags := extractDomTags e doc\<rparr> else metadata)
      in if Tags metadata \<noteq> []
         then metadata\<lparr>Tags := cleanCatTags (Tags metadata)\<rparr> else metadata)"

definition extractMetadata :: "env \<Rightarrow> node \<Rightarrow> string option \<Rightarrow> Metadata" where
  "extractMetadata e doc defaultURL =
     (let metadata = processMetaTags e doc;
          metadata = extractJsonLd e doc metadata;
          metadata = fillTitle e doc metadata;
          metadata = fillAuthor e doc metadata;
          metadata = fillURL e doc defaultURL metadata;
          metadata = fillHostname e metadata;
          metadata = fillSitename e doc metadata;
          metadata = finishSitename e metadata;
          metadata = fillCategories e doc metadata;
          metadata = fillTags e doc metadata
      in metadata)"

section \<open>What the claims speak of\<close>

text \<open>The record after the meta tags and JSON-LD, before the extractors on the DOM.\<close>

definition gathered :: "env \<Rightarrow> node \<Rightarrow> Metadata" where
  "gathered e doc = extractJsonLd e doc (processMetaTags e doc)"

text \<open>
  A meta element that the scan of \<open>processMetaTags\<close> takes as a tag: its content is not
  empty, and its property is \<open>article:tag\<close>, or it has no property and its name is
  \<open>keywords\<close>. Then the contents of these elements, in document order.
\<close>

definition isTagMeta :: "env \<Rightarrow> node \<Rightarrow> bool" where
  "isTagMeta e node =
     (strNormalize (GetAttribute node ''content'') \<noteq> []
      \<and> (strNormalize (GetAttribute node ''property'') = ''article:tag''
           \<or> strNormalize (GetAttribute node ''property'') = []
              \<and> strNormalize (strings_ToLower e (GetAttribute node ''name'')) = ''keywords''))"

definition metaTagContents :: "env \<Rightarrow> node \<Rightarrow> string list" where
  "metaTagContents e doc =
     map (\<lambda>node. strNormalize (GetAttribute node ''content''))
       (filter (isTagMeta e) (QuerySelectorAll doc (sel_has_attr ''meta'' ''content'')))"

text \<open>The \<open>name\<close> of a JSON object, as \<open>extractJsonString\<close> reads it.\<close>

definition objectName :: "jobject \<Rightarrow> string" where
  "objectName obj = (case map_of obj ''name'' of Some v \<Rightarrow> extractJsonString v | None \<Rightarrow> [])"

text \<open>
  An author as the spec wants it: with a space, not starting with \<open>http\<close>, and with no
  brace and no backslash.
\<close>

definition validAuthor :: "string \<Rightarrow> bool" where
  "validAuthor a =
     (CHR '' '' \<in> set a \<and> \<not> HasPrefix a ''http''
      \<and> CHR ''{'' \<notin> set a \<and> CHR ''}'' \<notin> set a \<and> CHR 0x5C \<notin> set a)"

definition authorInv :: "Metadata \<Rightarrow> bool" where
  "authorInv m = (Author m = [] \<or> validAuthor (Author m))"

definition urlInv :: "Metadata \<Rightarrow> bool" where
  "urlInv m = (URL m = [] \<or> isAbsoluteURL (URL m))"

text \<open>The site name that the sources give, before \<open>extractMetadata\<close> normalises it.\<close>

definition sitenameFound :: "env \<Rightarrow> node \<Rightarrow> string" where
  "sitenameFound e doc =
     (if Sitename (gathered e doc) = [] then extractDomSitename e doc
      else Sitename (gathered e doc))"

text \<open>The categories and the tags that the sources give, before \<open>cleanCatTags\<close>.\<close>

definition collectedCategories :: "env \<Rightarrow> node \<Rightarrow> string list" where
  "collectedCategories e doc =
     (if Categories (gathered e doc) = [] then extractDomCategories e doc
      else Categories (gathered e doc))"

definition collectedTags :: "env \<Rightarrow> node \<Rightarrow> string list" where
  "collectedTags e doc =
     (if Tags (gathered e doc) = [] then extractDomTags e doc else Tags (gathered e doc))"

text \<open>
  A clean entry of Categories or Tags: not empty, unchanged by the normalisation, with no
  white space at either end, and with no comma and no semicolon.
\<close>

definition cleanEntry :: "string \<Rightarrow> bool" where
  "cleanEntry x =
     (x \<noteq> [] \<and> strNormalize x = x \<and> \<not> isSpace (hd x) \<and> \<not> isSpace (last x)
      \<and> CHR '','' \<notin> set x \<and> CHR '';'' \<notin> set x)"

section \<open>An environment for ASCII documents\<close>

text \<open>
  The examples below run the extractor on documents whose text is ASCII. On ASCII text
  the library functions are as follows, and the regular expressions of the environment
  match as follows (the two that read a title are applied to normalised text only, which
  has no line feed).
\<close>

definition upperLetters :: string where
  "upperLetters = ''ABCDEFGHIJKLMNOPQRSTUVWXYZ''"

definition lowerLetters :: string where
  "lowerLetters = ''abcdefghijklmnopqrstuvwxyz''"

definition asciiLower :: "char \<Rightarrow> char" where
  "asciiLower c = (case map_of (zip upperLetters lowerLetters) c of Some l \<Rightarrow> l | None \<Rightarrow> c)"

definition asciiUpper :: "char \<Rightarrow> char" where
  "asciiUpper c = (case map_of (zip lowerLetters upperLetters) c of Some u \<Rightarrow> u | None \<Rightarrow> c)"

text \<open>The class \<^verbatim>\<open>\w\<close>; \<open>strings.Title\<close> starts a word after a byte that is not in it.\<close>

definition wordByte :: "char \<Rightarrow> bool" where
  "wordByte c = (c \<in> set upperLetters \<or> c \<in> set lowerLetters \<or> c \<in> set ''0123456789_'')"

definition asciiToLower :: "string \<Rightarrow> string" where
  "asciiToLower s = map asciiLower s"

fun titleFrom :: "char \<Rightarrow> string \<Rightarrow> string" where
  "titleFrom prev [] = []"
| "titleFrom prev (c # cs) = (if wordByte prev then c else asciiUpper c) # titleFrom c cs"

definition asciiTitle :: "string \<Rightarrow> string" where
  "asciiTitle s = titleFrom (CHR '' '') s"

definition asciiTrimSpace :: "string \<Rightarrow> string" where
  "asciiTrimSpace s = rev (dropWhile isSpace (rev (dropWhile isSpace s)))"

definition asciiFirstRuneIsUpper :: "string \<Rightarrow> bool" where
  "asciiFirstRuneIsUpper s = (case s of [] \<Rightarrow> False | c # _ \<Rightarrow> c \<in> set upperLetters)"

definition hasPrefixFold :: "string \<Rightarrow> string \<Rightarrow> bool" where
  "hasPrefixFold s p = HasPrefix (asciiToLower s) p"

definition skipOne :: "(char \<Rightarrow> bool) \<Rightarrow> string \<Rightarrow> string" where
  "skipOne P s = (case s of c # cs \<Rightarrow> if P c then cs else s | [] \<Rightarrow> s)"

text \<open>\<open>rxDomainFinder\<close>, \<^verbatim>\<open>(?i)https?://[^/]+\<close>.\<close>

definition schemeLength :: "string \<Rightarrow> nat option" where
  "schemeLength s =
     (if hasPrefixFold s ''https://'' then Some 8
      else if hasPrefixFold s ''http://'' then Some 7 else None)"

definition hostOf :: "string \<Rightarrow> string" where
  "hostOf s = takeWhile (\<lambda>c. c \<noteq> CHR ''/'') s"

fun asciiDomainFinder :: "string \<Rightarrow> string option" where
  "asciiDomainFinder [] = None"
| "asciiDomainFinder (c # cs) =
     (case schemeLength (c # cs) of
        Some n \<Rightarrow>
          if hostOf (drop n (c # cs)) \<noteq> [] then Some (take n (c # cs) @ hostOf (drop n (c # cs)))
          else asciiDomainFinder cs
      | None \<Rightarrow> asciiDomainFinder cs)"

text \<open>\<open>rxSitenameFinder2\<close>, \<^verbatim>\<open>(?i)https?://(?:www\.|w[0-9]+\.)?([^/]+)\<close>.\<close>

definition afterNumberedW :: "string \<Rightarrow> string option" where
  "afterNumberedW s =
     (case s of
        w # t \<Rightarrow>
          if asciiLower w = CHR ''w'' \<and> takeWhile (\<lambda>c. c \<in> set ''0123456789'') t \<noteq> []
          then (case dropWhile (\<lambda>c. c \<in> set ''0123456789'') t of
                  d # r \<Rightarrow> if d = CHR ''.'' then Some r else None
                | [] \<Rightarrow> None)
          else None
      | [] \<Rightarrow> None)"

definition hostGroup :: "string \<Rightarrow> string option" where
  "hostGroup s =
     (if hasPrefixFold s ''www.'' \<and> hostOf (drop 4 s) \<noteq> [] then Some (hostOf (drop 4 s))
      else if (case afterNumberedW s of Some r \<Rightarrow> hostOf r \<noteq> [] | None \<Rightarrow> False)
        then map_option hostOf (afterNumberedW s)
      else if hostOf s \<noteq> [] then Some (hostOf s) else None)"

fun asciiSitenameFinder2 :: "string \<Rightarrow> string option" where
  "asciiSitenameFinder2 [] = None"
| "asciiSitenameFinder2 (c # cs) =
     (case schemeLength (c # cs) of
        Some n \<Rightarrow>
          (case hostGroup (drop n (c # cs)) of
             Some g \<Rightarrow> Some g
           | None \<Rightarrow> asciiSitenameFinder2 cs)
      | None \<Rightarrow> asciiSitenameFinder2 cs)"

text \<open>\<open>rxSitenameFinder1\<close>, \<^verbatim>\<open>(?i)^.*?[-|]\s+(.*)$\<close>.\<close>

fun asciiSitenameFinder1 :: "string \<Rightarrow> string option" where
  "asciiSitenameFinder1 [] = None"
| "asciiSitenameFinder1 (c # cs) =
     (if (c = CHR ''-'' \<or> c = CHR ''|'') \<and> (case cs of d # _ \<Rightarrow> rxSpace d | [] \<Rightarrow> False)
      then Some (dropWhile rxSpace cs)
      else asciiSitenameFinder1 cs)"

text \<open>
  \<open>rxTitleCleaner\<close>, \<^verbatim>\<open>(?i)(.+)?\s+[-|]\s+.*$\<close>: the group ends at the last position where
  the tail of the expression matches.
\<close>

definition titleTailAt :: "string \<Rightarrow> bool" where
  "titleTailAt s =
     ((case s of c # _ \<Rightarrow> rxSpace c | [] \<Rightarrow> False)
      \<and> (case dropWhile rxSpace s of
            c # d # _ \<Rightarrow> (c = CHR ''-'' \<or> c = CHR ''|'') \<and> rxSpace d
          | _ \<Rightarrow> False))"

definition asciiTitleCleaner :: "string \<Rightarrow> string option" where
  "asciiTitleCleaner s =
     (case filter (\<lambda>j. titleTailAt (drop j s)) (rev [0..<length s]) of
        j # _ \<Rightarrow> Some (take j s)
      | [] \<Rightarrow> None)"

text \<open>\<open>rxNameJson\<close>, \<^verbatim>\<open>(?i)"name?\\?": ?\\?"([^"\\]+)\<close>.\<close>

definition nameJsonAt :: "string \<Rightarrow> string option" where
  "nameJsonAt s =
     (if hasPrefixFold s [CHR 0x22, CHR ''n'', CHR ''a'', CHR ''m'']
      then (let r = skipOne (\<lambda>c. c = CHR 0x5C) (skipOne (\<lambda>c. asciiLower c = CHR ''e'') (drop 4 s))
            in if HasPrefix r [CHR 0x22, CHR '':'']
               then (case skipOne (\<lambda>c. c = CHR 0x5C) (skipOne (\<lambda>c. c = CHR '' '') (drop 2 r)) of
                       q # t \<Rightarrow>
                         if q = CHR 0x22 \<and> takeWhile (\<lambda>c. c \<noteq> CHR 0x22 \<and> c \<noteq> CHR 0x5C) t \<noteq> []
                         then Some (takeWhile (\<lambda>c. c \<noteq> CHR 0x22 \<and> c \<noteq> CHR 0x5C) t)
                         else None
                     | [] \<Rightarrow> None)
               else None)
      else None)"

fun asciiNameJson :: "string \<Rightarrow> string option" where
  "asciiNameJson [] = None"
| "asciiNameJson (c # cs) =
     (case nameJsonAt (c # cs) of Some g \<Rightarrow> Some g | None \<Rightarrow> asciiNameJson cs)"

text \<open>
  \<open>rxAuthorCleaner1\<close>, \<^verbatim>\<open>(?i)^(L+(ed|t))?\s?(by|von)\s\<close> where \<open>L\<close> is the class of the
  letters a to z with the German umlauts and sharp s, here on ASCII letters: what follows
  the match at the start, the whole string when there is none.
\<close>

definition afterByVon :: "string \<Rightarrow> string option" where
  "afterByVon s =
     (let t = skipOne rxSpace s;
          word = (\<lambda>u. if hasPrefixFold u ''by'' then Some (drop 2 u)
                       else if hasPrefixFold u ''von'' then Some (drop 3 u) else None)
      in case word t of
           Some (c # r) \<Rightarrow> if rxSpace c then Some r else None
         | _ \<Rightarrow> None)"

definition afterParticiple :: "string \<Rightarrow> nat \<Rightarrow> string option" where
  "afterParticiple s l =
     (if hasPrefixFold (drop l s) ''ed'' \<and> afterByVon (drop (l + 2) s) \<noteq> None
      then afterByVon (drop (l + 2) s)
      else if hasPrefixFold (drop l s) ''t'' then afterByVon (drop (l + 1) s)
      else None)"

definition asciiAuthorCleaner1 :: "string \<Rightarrow> string" where
  "asciiAuthorCleaner1 s =
     (let letters = takeWhile (\<lambda>c. asciiLower c \<in> set lowerLetters) s
      in case List.map_filter (afterParticiple s) (rev [1..<length letters]) of
           r # _ \<Rightarrow> r
         | [] \<Rightarrow> (case afterByVon s of Some r \<Rightarrow> r | None \<Rightarrow> s))"

text \<open>\<open>rxAuthorCleaner2\<close>, \<^verbatim>\<open>(?i)\d.+?$\<close>.\<close>

fun asciiAuthorCleaner2 :: "string \<Rightarrow> string" where
  "asciiAuthorCleaner2 [] = []"
| "asciiAuthorCleaner2 (c # cs) =
     (if c \<in> set ''0123456789'' \<and> cs \<noteq> [] \<and> CHR 0x0A \<notin> set cs then []
      else c # asciiAuthorCleaner2 cs)"

text \<open>\<open>rxAuthorCleaner3\<close>, \<^verbatim>\<open>(?i)[^\w]+$|( am| on)\<close>.\<close>

fun asciiAuthorCleaner3 :: "string \<Rightarrow> string" where
  "asciiAuthorCleaner3 [] = []"
| "asciiAuthorCleaner3 (c # cs) =
     (if list_all (\<lambda>x. \<not> wordByte x) (c # cs) then []
      else if c = CHR '' '' \<and> (hasPrefixFold cs ''am'' \<or> hasPrefixFold cs ''on'')
        then asciiAuthorCleaner3 (drop 2 cs)
      else c # asciiAuthorCleaner3 cs)"

text \<open>The host of an absolute URL, and a path put behind the domain of the default URL.\<close>

definition asciiExtractDomainURL :: "string \<Rightarrow> string" where
  "asciiExtractDomainURL url =
     (case schemeLength url of
        Some n \<Rightarrow> takeWhile (\<lambda>c. c \<notin> set ''/?#'') (drop n url)
      | None \<Rightarrow> [])"

definition asciiCreateAbsoluteURL :: "string \<Rightarrow> string option \<Rightarrow> string" where
  "asciiCreateAbsoluteURL url defaultURL =
     (case defaultURL of
        Some base \<Rightarrow>
          (case asciiDomainFinder base of
             Some domain \<Rightarrow> if HasPrefix url ''/'' then domain @ url else url
           | None \<Rightarrow> url)
      | None \<Rightarrow> url)"

section \<open>Example documents\<close>

definition meta_property :: "string \<Rightarrow> string \<Rightarrow> node" where
  "meta_property p c = Element ''meta'' [(''property'', p), (''content'', c)] []"

definition meta_name :: "string \<Rightarrow> string \<Rightarrow> node" where
  "meta_name n c = Element ''meta'' [(''name'', n), (''content'', c)] []"

definition ld_json :: "string \<Rightarrow> node" where
  "ld_json text = Element ''script'' [(''type'', ''application/ld+json'')] [TextNode text]"

definition page :: "node list \<Rightarrow> node list \<Rightarrow> node" where
  "page head body = Document [Element ''html'' [] [Element ''head'' [] head, Element ''body'' [] body]]"

text \<open>The texts of the JSON-LD scripts of the examples, and their values.\<close>

definition sectionJson :: string where
  \<open>sectionJson = ''{"@type":"Article","articleSection":["News"]}''\<close>

definition headlineJson :: string where
  \<open>headlineJson =
     ''{"@type":"Article","headline":"First Headline","alternativeHeadline":"Second Headline"}''\<close>

definition arrayJson :: string where
  \<open>arrayJson = ''[{"@type":"Article","name":"My Title Here"}]''\<close>

definition publisherJson :: string where
  \<open>publisherJson =
     ''{"@type":"NewsArticle","publisher":{"@type":"Organization","name":"My first site"}}''\<close>

definition exampleDecode :: "string \<Rightarrow> json option" where
  "exampleDecode text =
     (if text = sectionJson
        then Some (JObject [(''@type'', JString ''Article''),
                            (''articleSection'', JArray [JString ''News''])])
      else if text = headlineJson
        then Some (JObject [(''@type'', JString ''Article''),
                            (''headline'', JString ''First Headline''),
                            (''alternativeHeadline'', JString ''Second Headline'')])
      else if text = arrayJson
        then Some (JArray [JObject [(''@type'', JString ''Article''),
                                    (''name'', JString ''My Title Here'')]])
      else if text = publisherJson
        then Some (JObject [(''@type'', JString ''NewsArticle''),
                            (''publisher'', JObject [(''@type'', JString ''Organization''),
                                                     (''name'', JString ''My first site'')])])
      else None)"

text \<open>
  The environment of the examples. A \<open>range\<close> visits the entries in the order of the
  JSON text; the tables of selectors, which the sources do not give, hold one selector
  each, for the elements that the tests of the repository use.
\<close>

definition asciiEnv :: env where
  "asciiEnv =
     \<lparr>strings_ToLower = asciiToLower,
      strings_Title = asciiTitle,
      strings_TrimSpace = asciiTrimSpace,
      firstRuneIsUpper = asciiFirstRuneIsUpper,
      json_decode = exampleDecode,
      rangeRank = (\<lambda>obj key. 0),
      metaTitleSelectors = [],
      metaAuthorSelectors = [\<lambda>doc. QuerySelectorAll doc (sel_attr_eq ''span'' ''class'' ''author'')],
      metaCategoriesSelectors = [\<lambda>doc. QuerySelectorAll doc (sel_under ''p'' (sel_tag ''a''))],
      metaTagsSelectors = [\<lambda>doc. QuerySelectorAll doc (sel_under ''p'' (sel_tag ''a''))],
      createAbsoluteURL = asciiCreateAbsoluteURL,
      extractDomainURL = asciiExtractDomainURL,
      rxTitleCleaner_1 = asciiTitleCleaner,
      rxNameJson_1 = asciiNameJson,
      rxAuthorCleaner1_Replace = asciiAuthorCleaner1,
      rxAuthorCleaner2_Replace = asciiAuthorCleaner2,
      rxAuthorCleaner3_Replace = asciiAuthorCleaner3,
      rxDomainFinder_0 = asciiDomainFinder,
      rxSitenameFinder1_1 = asciiSitenameFinder1,
      rxSitenameFinder2_1 = asciiSitenameFinder2\<rparr>"

text \<open>The same environment with a \<open>range\<close> that visits \<open>alternativeHeadline\<close> first.\<close>

definition otherOrderEnv :: env where
  "otherOrderEnv =
     asciiEnv\<lparr>rangeRank := (\<lambda>obj key. if key = ''alternativeHeadline'' then 0 else 1)\<rparr>"

definition openGraphMetas :: "string \<Rightarrow> node list" where
  "openGraphMetas author =
     [meta_property ''og:title'' ''Open Graph Title'',
      meta_property ''og:author'' author,
      meta_property ''og:description'' ''This is an Open Graph description'',
      meta_property ''og:site_name'' ''My first site'',
      meta_property ''og:url'' ''https://example.org/test'']"

definition tagMetas :: "node list" where
  "tagMetas = [meta_name ''keywords'' ''news, sports'', meta_property ''article:tag'' ''politics'']"

definition openGraphTagsDoc :: node where
  "openGraphTagsDoc = page (openGraphMetas ''Jenny Smith'' @ tagMetas) []"

definition titleTagsDoc :: node where
  "titleTagsDoc = page (meta_property ''og:title'' ''Open Graph Title'' # tagMetas) []"

definition untypedAuthorArticle :: jobject where
  "untypedAuthorArticle =
     [(''@type'', JString ''NewsArticle''), (''author'', JObject [(''name'', JString ''Jane Doe'')])]"

definition organizationAuthor :: jobject where
  "organizationAuthor = [(''@type'', JString ''Organization''), (''name'', JString ''Acme Corp'')]"

definition organizationArticle :: jobject where
  "organizationArticle =
     [(''@type'', JString ''NewsArticle''), (''author'', JObject organizationAuthor)]"

definition domAuthorDoc :: node where
  "domAuthorDoc = page [] [Element ''span'' [(''class'', ''author'')] [TextNode ''Jenny'']]"

definition openGraphAuthorDoc :: node where
  "openGraphAuthorDoc = page (openGraphMetas ''Jenny'') []"

definition creatorDoc :: node where
  "creatorDoc = page [meta_name ''dc.creator'' ''Jenny Smith''] []"

definition localhostDoc :: node where
  "localhostDoc = page [meta_property ''og:url'' ''https://localhost/a''] []"

definition digitSitenameDoc :: node where
  "digitSitenameDoc = page [meta_property ''og:site_name'' ''9 news''] []"

definition twitterSitenameDoc :: node where
  "twitterSitenameDoc = page [meta_name ''twitter:site'' ''@mysite''] []"

definition categoryLink :: node where
  "categoryLink =
     Element ''p'' [(''class'', ''entry-categories'')]
       [Element ''a'' [(''href'', ''https://example.org/category/cat1/'')] [TextNode ''Cat1'']]"

definition sectionDoc :: node where
  "sectionDoc = page [ld_json sectionJson] [categoryLink]"

definition categoryDoc :: node where
  "categoryDoc = page [] [categoryLink]"

definition emptyDoc :: node where
  "emptyDoc = page [] []"

definition headlineDoc :: node where
  "headlineDoc = page [ld_json headlineJson] []"

definition arrayDoc :: node where
  "arrayDoc = page [ld_json arrayJson] []"

definition publisherDoc :: node where
  "publisherDoc = page [meta_property ''og:site_name'' ''x'', ld_json publisherJson] []"

section \<open>Lemmas\<close>

lemma FieldsFrom_word:
  "w \<in> set (FieldsFrom cur s) \<Longrightarrow> \<forall>c\<in>set cur. \<not> isSpace c \<Longrightarrow>
     w \<noteq> [] \<and> (\<forall>c\<in>set w. \<not> isSpace c \<and> (c \<in> set cur \<or> c \<in> set s))"
proof (induction s arbitrary: cur)
  case Nil
  then show ?case by (auto split: if_splits)
next
  case (Cons a s)
  show ?case
  proof (cases "isSpace a")
    case True
    with Cons.prems have "w = cur \<and> cur \<noteq> [] \<or> w \<in> set (FieldsFrom [] s)"
      by (auto split: if_splits)
    then show ?thesis
    proof
      assume "w = cur \<and> cur \<noteq> []"
      with Cons.prems(2) show ?thesis by auto
    next
      assume "w \<in> set (FieldsFrom [] s)"
      from Cons.IH [OF this] show ?thesis by auto
    qed
  next
    case False
    with Cons.prems have m: "w \<in> set (FieldsFrom (cur @ [a]) s)" by simp
    have n: "\<forall>c\<in>set (cur @ [a]). \<not> isSpace c" using False Cons.prems(2) by auto
    have "w \<noteq> [] \<and> (\<forall>c\<in>set w. \<not> isSpace c \<and> (c \<in> set (cur @ [a]) \<or> c \<in> set s))"
      by (rule Cons.IH [OF m n])
    then show ?thesis by auto
  qed
qed

lemma Fields_word:
  "w \<in> set (Fields s) \<Longrightarrow> w \<noteq> [] \<and> (\<forall>c\<in>set w. \<not> isSpace c \<and> c \<in> set s)"
  using FieldsFrom_word [of w "[]" s] by (auto simp: Fields_def)

lemma Join_hd: "ws \<noteq> [] \<Longrightarrow> hd ws \<noteq> [] \<Longrightarrow> hd (Join ws sep) = hd (hd ws)"
  by (induction ws sep rule: Join.induct) auto

lemma Join_nonempty: "ws \<noteq> [] \<Longrightarrow> hd ws \<noteq> [] \<Longrightarrow> Join ws sep \<noteq> []"
  by (induction ws sep rule: Join.induct) auto

lemma Join_last:
  "ws \<noteq> [] \<Longrightarrow> \<forall>w\<in>set ws. w \<noteq> [] \<Longrightarrow> last (Join ws sep) = last (last ws)"
  by (induction ws sep rule: Join.induct) (auto simp: Join_nonempty)

lemma Join_set: "c \<in> set (Join ws sep) \<Longrightarrow> c \<in> set sep \<or> (\<exists>w\<in>set ws. c \<in> set w)"
  by (induction ws sep rule: Join.induct) auto

lemma Join_empty_iff: "(\<forall>w\<in>set ws. w \<noteq> []) \<Longrightarrow> (Join ws sep = []) = (ws = [])"
  by (induction ws sep rule: Join.induct) auto

lemma FieldsFrom_append_word:
  "\<forall>c\<in>set w. \<not> isSpace c \<Longrightarrow> FieldsFrom cur (w @ s) = FieldsFrom (cur @ w) s"
  by (induction w arbitrary: cur) auto

lemma FieldsFrom_Join:
  "\<forall>w\<in>set ws. w \<noteq> [] \<and> (\<forall>c\<in>set w. \<not> isSpace c) \<Longrightarrow>
     FieldsFrom [] (Join ws '' '') = ws"
proof (induction ws)
  case Nil
  then show ?case by simp
next
  case (Cons x ws)
  then have x: "x \<noteq> []" "\<forall>c\<in>set x. \<not> isSpace c"
    and IH: "FieldsFrom [] (Join ws '' '') = ws" by simp_all
  show ?case
  proof (cases ws)
    case Nil
    then show ?thesis using FieldsFrom_append_word [OF x(2), of "[]" "[]"] x(1) by simp
  next
    case (Cons y ys)
    have "FieldsFrom [] (x @ CHR '' '' # Join ws '' '') = FieldsFrom x (CHR '' '' # Join ws '' '')"
      using FieldsFrom_append_word [OF x(2), of "[]"] by simp
    also have "\<dots> = x # FieldsFrom [] (Join ws '' '')"
      using x(1) by (simp add: isSpace_def)
    finally have "FieldsFrom [] (x @ CHR '' '' # Join ws '' '') = x # ws"
      by (simp only: IH)
    then show ?thesis by (simp add: Cons)
  qed
qed

lemma strNormalize_idem: "strNormalize (strNormalize s) = strNormalize s"
  using FieldsFrom_Join [of "Fields s"] Fields_word [of _ s]
  by (simp add: strNormalize_def Fields_def)

lemma strNormalize_ends:
  assumes "strNormalize s \<noteq> []"
  shows "\<not> isSpace (hd (strNormalize s)) \<and> \<not> isSpace (last (strNormalize s))"
proof -
  have ne: "Fields s \<noteq> []" using assms by (auto simp: strNormalize_def)
  then have h: "hd (Fields s) \<in> set (Fields s)" and l: "last (Fields s) \<in> set (Fields s)" by auto
  from Fields_word [OF h] Fields_word [OF l] ne show ?thesis
    using Fields_word [of _ s] by (simp add: strNormalize_def Join_hd Join_last)
qed

lemma strNormalize_set: "c \<in> set (strNormalize s) \<Longrightarrow> c = CHR '' '' \<or> c \<in> set s"
  using Join_set [of c "Fields s" "'' ''"] Fields_word [of _ s] by (auto simp: strNormalize_def)

lemma SplitFrom_piece:
  "p \<in> set (SplitFrom cur s) \<Longrightarrow> \<forall>c\<in>set cur. \<not> isSeparator c \<Longrightarrow> \<forall>c\<in>set p. \<not> isSeparator c"
proof (induction cur s rule: SplitFrom.induct)
  case (1 cur s)
  show ?case
  proof (cases "s = []")
    case True
    with 1 show ?thesis by (simp add: SplitFrom.simps)
  next
    case ne: False
    show ?thesis
    proof (cases "separatorAt s")
      case True
      with ne "1.prems" have "p = cur \<or> p \<in> set (SplitFrom [] (afterSeparator s))"
        by (subst (asm) SplitFrom.simps) auto
      then show ?thesis using "1.IH"(1) [OF ne True] "1.prems"(2) by auto
    next
      case False
      with ne "1.prems" have p: "p \<in> set (SplitFrom (cur @ [hd s]) (tl s))"
        by (subst (asm) SplitFrom.simps) auto
      have "\<not> isSeparator (hd s)"
      proof
        assume sep: "isSeparator (hd s)"
        then have "\<not> rxSpace (hd s)" by (auto simp: isSeparator_def rxSpace_def)
        with ne sep have "separatorAt s" by (cases s) (auto simp: separatorAt_def)
        with False show False by simp
      qed
      with "1.prems"(2) have "\<forall>c\<in>set (cur @ [hd s]). \<not> isSeparator c" by simp
      then show ?thesis by (rule "1.IH"(2) [OF ne False p])
    qed
  qed
qed

lemma cleanCatTags_Nil: "cleanCatTags [] = []"
  by (simp add: cleanCatTags_def)

lemma cleanCatTags_entry:
  assumes "x \<in> set (cleanCatTags xs)"
  shows "cleanEntry x"
proof -
  from assms obtain entry p where p: "p \<in> set (rxCommaSeparator_Split entry)"
    and x: "x = strNormalize p" and ne: "x \<noteq> []"
    by (auto simp: cleanCatTags_def)
  have nosep: "\<forall>c\<in>set p. \<not> isSeparator c"
    using SplitFrom_piece [of p "[]" entry] p by (simp add: rxCommaSeparator_Split_def)
  have "\<forall>c\<in>set x. \<not> isSeparator c"
  proof
    fix c assume "c \<in> set x"
    then have "c = CHR '' '' \<or> c \<in> set p" unfolding x by (rule strNormalize_set)
    then show "\<not> isSeparator c" using nosep by (auto simp: isSeparator_def)
  qed
  then have "CHR '','' \<notin> set x" and "CHR '';'' \<notin> set x"
    by (auto simp: isSeparator_def)
  moreover have "strNormalize x = x" unfolding x by (rule strNormalize_idem)
  moreover have "\<not> isSpace (hd x) \<and> \<not> isSpace (last x)"
    using strNormalize_ends [of p] ne unfolding x by simp
  ultimately show ?thesis using ne by (simp add: cleanEntry_def)
qed

lemma extractJsonLd_Tags: "Tags (extractJsonLd e doc m) = Tags m"
  by (simp add: extractJsonLd_def Let_def)

lemma fillTitle_fields [simp]:
  "Author (fillTitle e doc m) = Author m" "URL (fillTitle e doc m) = URL m"
  "Sitename (fillTitle e doc m) = Sitename m" "Categories (fillTitle e doc m) = Categories m"
  "Tags (fillTitle e doc m) = Tags m"
  by (simp_all add: fillTitle_def)

lemma fillAuthor_fields [simp]:
  "Author (fillAuthor e doc m) = (if Author m = [] then extractDomAuthor e doc else Author m)"
  "URL (fillAuthor e doc m) = URL m"
  "Sitename (fillAuthor e doc m) = Sitename m" "Categories (fillAuthor e doc m) = Categories m"
  "Tags (fillAuthor e doc m) = Tags m"
  by (simp_all add: fillAuthor_def)

lemma fillURL_fields [simp]:
  "Author (fillURL e doc u m) = Author m"
  "URL (fillURL e doc u m) = (if URL m = [] then extractDomURL e doc u else URL m)"
  "Sitename (fillURL e doc u m) = Sitename m" "Categories (fillURL e doc u m) = Categories m"
  "Tags (fillURL e doc u m) = Tags m"
  by (simp_all add: fillURL_def)

lemma fillHostname_fields [simp]:
  "Author (fillHostname e m) = Author m" "URL (fillHostname e m) = URL m"
  "Sitename (fillHostname e m) = Sitename m" "Categories (fillHostname e m) = Categories m"
  "Tags (fillHostname e m) = Tags m"
  by (simp_all add: fillHostname_def)

lemma fillSitename_fields [simp]:
  "Author (fillSitename e doc m) = Author m" "URL (fillSitename e doc m) = URL m"
  "Sitename (fillSitename e doc m) = (if Sitename m = [] then extractDomSitename e doc else Sitename m)"
  "Categories (fillSitename e doc m) = Categories m"
  "Tags (fillSitename e doc m) = Tags m"
  by (simp_all add: fillSitename_def)

lemma finishSitename_fields [simp]:
  "Author (finishSitename e m) = Author m" "URL (finishSitename e m) = URL m"
  "Categories (finishSitename e m) = Categories m"
  "Tags (finishSitename e m) = Tags m"
  by (simp_all add: finishSitename_def split: option.split)

lemma fillCategories_fields [simp]:
  "Author (fillCategories e doc m) = Author m" "URL (fillCategories e doc m) = URL m"
  "Sitename (fillCategories e doc m) = Sitename m"
  "Categories (fillCategories e doc m) =
     cleanCatTags (if Categories m = [] then extractDomCategories e doc else Categories m)"
  "Tags (fillCategories e doc m) = Tags m"
  by (simp_all add: fillCategories_def Let_def cleanCatTags_Nil)

lemma fillTags_fields [simp]:
  "Author (fillTags e doc m) = Author m" "URL (fillTags e doc m) = URL m"
  "Sitename (fillTags e doc m) = Sitename m"
  "Categories (fillTags e doc m) = Categories m"
  "Tags (fillTags e doc m) =
     cleanCatTags (if Tags m = [] then extractDomTags e doc else Tags m)"
  by (simp_all add: fillTags_def Let_def cleanCatTags_Nil)

lemma extractMetadata_Categories:
  "Categories (extractMetadata e doc u) = cleanCatTags (collectedCategories e doc)"
  by (simp add: extractMetadata_def collectedCategories_def gathered_def)

lemma extractMetadata_Tags:
  "Tags (extractMetadata e doc u) = cleanCatTags (collectedTags e doc)"
  by (simp add: extractMetadata_def collectedTags_def gathered_def)

lemma extractMetadata_Author:
  "Author (extractMetadata e doc u) =
     (if Author (gathered e doc) = [] then extractDomAuthor e doc else Author (gathered e doc))"
  by (simp add: extractMetadata_def gathered_def)

lemma extractMetadata_URL:
  "URL (extractMetadata e doc u) =
     (if URL (gathered e doc) = [] then extractDomURL e doc u else URL (gathered e doc))"
  by (simp add: extractMetadata_def gathered_def)

lemma extractMetadata_Sitename:
  "Sitename (extractMetadata e doc u) =
     Sitename (finishSitename e (fillSitename e doc (fillHostname e (fillURL e doc u
        (fillAuthor e doc (fillTitle e doc (gathered e doc)))))))"
  by (simp add: extractMetadata_def gathered_def)

lemma openGraphNode_Tags: "Tags (openGraphNode m n) = Tags m"
  by (simp add: openGraphNode_def Let_def)

lemma foldl_openGraphNode_Tags: "Tags (foldl openGraphNode m ns) = Tags m"
  by (induction ns arbitrary: m) (simp_all add: openGraphNode_Tags)

lemma extractOpenGraphMeta_Tags: "Tags (extractOpenGraphMeta doc) = []"
  by (simp add: extractOpenGraphMeta_def foldl_openGraphNode_Tags emptyMetadata_def)

lemma metaTagNode_Tags:
  "Tags (fst (metaTagNode e st n)) =
     Tags (fst st) @ (if isTagMeta e n then [strNormalize (GetAttribute n ''content'')] else [])"
  by (simp add: metaTagNode_def isTagMeta_def Let_def strIn_def HasPrefix_def
      metaNameAuthor_def metaNameTitle_def metaNameDescription_def metaNamePublisher_def)

lemma foldl_metaTagNode_Tags:
  "Tags (fst (foldl (metaTagNode e) st ns)) =
     Tags (fst st) @ map (\<lambda>node. strNormalize (GetAttribute node ''content'')) (filter (isTagMeta e) ns)"
proof (induction ns arbitrary: st)
  case Nil
  show ?case by simp
next
  case (Cons n ns)
  have "Tags (fst (foldl (metaTagNode e) (metaTagNode e st n) ns)) =
        Tags (fst (metaTagNode e st n))
        @ map (\<lambda>node. strNormalize (GetAttribute node ''content'')) (filter (isTagMeta e) ns)"
    by (rule Cons.IH)
  then show ?case by (simp add: metaTagNode_Tags)
qed

lemma articleAuthor_fields [simp]:
  "Author (articleAuthor e a m) =
     (if Author m = []
      then validateMetadataAuthor (extractJsonArticleThingName e a ''author'' [''Person''])
      else Author m)"
  "Sitename (articleAuthor e a m) = Sitename m" "Categories (articleAuthor e a m) = Categories m"
  "Title (articleAuthor e a m) = Title m"
  by (simp_all add: articleAuthor_def)

lemma articleSitename_fields [simp]:
  "Author (articleSitename e a m) = Author m"
  "Sitename (articleSitename e a m) =
     (if Sitename m = [] then extractJsonArticleThingName e a ''publisher'' [] else Sitename m)"
  "Categories (articleSitename e a m) = Categories m"
  "Title (articleSitename e a m) = Title m"
  by (simp_all add: articleSitename_def)

lemma articleCategories_fields [simp]:
  "Author (articleCategories a m) = Author m"
  "Sitename (articleCategories a m) = Sitename m"
  "Title (articleCategories a m) = Title m"
  by (simp_all add: articleCategories_def split: option.split)

lemma articleName_fields [simp]:
  "Author (articleName a m) = Author m"
  "Sitename (articleName a m) = Sitename m"
  "Categories (articleName a m) = Categories m"
  by (simp_all add: articleName_def split: option.split)

lemma articleHeadline_fields [simp]:
  "Author (articleHeadline e a m) = Author m"
  "Sitename (articleHeadline e a m) = Sitename m"
  "Categories (articleHeadline e a m) = Categories m"
  by (simp_all add: articleHeadline_def split: option.split)

lemma jsonLdArticle_Author:
  "Author (jsonLdArticle e md article) =
     (if Author md = []
      then validateMetadataAuthor (extractJsonArticleThingName e article ''author'' [''Person''])
      else Author md)"
  by (simp add: jsonLdArticle_def)

lemma findImportantObjects_Nil: "findImportantObjects e [] = ([], [])"
  by (simp add: findImportantObjects.simps stringType_def rangeOver_def collect_def)

lemma jsonLdData_Nil: "jsonLdData e md [] = md"
  by (simp add: jsonLdData_def findImportantObjects_Nil personNames_def Let_def)

lemma Contains_space: "Contains a '' '' = (CHR '' '' \<in> set a)"
  by (induction a) (auto simp: HasPrefix_def)

lemma validateMetadataAuthor_valid:
  "validateMetadataAuthor a = [] \<or> validAuthor (validateMetadataAuthor a)"
  by (auto simp: validateMetadataAuthor_def validAuthor_def Contains_space rxJsonSymbol_MatchString_def)

lemma HasPrefix_append_cases:
  assumes "HasPrefix (x @ y) p"
  shows "HasPrefix x p \<or> set x \<subseteq> set p"
proof (cases "length p \<le> length x")
  case True
  with assms show ?thesis by (simp add: HasPrefix_def)
next
  case False
  from assms have "take (length x) (take (length p) (x @ y)) = take (length x) p"
    by (simp add: HasPrefix_def)
  with False have "x = take (length x) p" by (simp add: min_def)
  then have "set x \<subseteq> set p" by (metis set_take_subset)
  then show ?thesis ..
qed

lemma HasPrefix_append:
  assumes "CHR '' '' \<in> set x" and "\<not> HasPrefix x ''http''"
  shows "\<not> HasPrefix (x @ y) ''http''"
proof
  assume "HasPrefix (x @ y) ''http''"
  then have "HasPrefix x ''http'' \<or> set x \<subseteq> set ''http''" by (rule HasPrefix_append_cases)
  with assms show False by auto
qed

lemma Join_valid:
  "names \<noteq> [] \<Longrightarrow> \<forall>n\<in>set names. validAuthor n \<Longrightarrow> validAuthor (Join names ''; '')"
proof (induction names "''; ''" rule: Join.induct)
  case 1
  then show ?case by simp
next
  case (2 x)
  then show ?case by simp
next
  case (3 x y ys)
  then have x: "validAuthor x" and rest: "validAuthor (Join (y # ys) ''; '')" by simp_all
  from x have "\<not> HasPrefix (x @ ''; '' @ Join (y # ys) ''; '') ''http''"
    by (intro HasPrefix_append) (simp_all add: validAuthor_def)
  with x rest show ?case by (simp add: validAuthor_def)
qed

lemma jsonLdArticle_authorInv: "authorInv m \<Longrightarrow> authorInv (jsonLdArticle e m a)"
  using validateMetadataAuthor_valid by (auto simp: authorInv_def jsonLdArticle_Author)

lemma foldl_jsonLdArticle_authorInv:
  "authorInv m \<Longrightarrow> authorInv (foldl (jsonLdArticle e) m as)"
proof (induction as arbitrary: m)
  case Nil
  then show ?case by simp
next
  case (Cons a as)
  have "authorInv (jsonLdArticle e m a)" using Cons.prems by (rule jsonLdArticle_authorInv)
  then have "authorInv (foldl (jsonLdArticle e) (jsonLdArticle e m a) as)" by (rule Cons.IH)
  then show ?case by simp
qed

lemma personNames_valid: "\<forall>n\<in>set (personNames e ps). validAuthor n"
  using validateMetadataAuthor_valid by (auto simp: personNames_def)

lemma jsonLdData_authorInv:
  assumes "authorInv m"
  shows "authorInv (jsonLdData e m data)"
proof -
  let ?m = "foldl (jsonLdArticle e) m (fst (findImportantObjects e data))"
  let ?names = "personNames e (snd (findImportantObjects e data))"
  have inv: "authorInv ?m" using assms by (rule foldl_jsonLdArticle_authorInv)
  have "validAuthor (Join ?names ''; '')" if "?names \<noteq> []"
    using that personNames_valid by (rule Join_valid)
  with inv show ?thesis by (auto simp: jsonLdData_def Let_def authorInv_def)
qed

lemma jsonLdScript_authorInv: "authorInv m \<Longrightarrow> authorInv (fst (jsonLdScript e m s))"
  by (auto simp: jsonLdScript_def Let_def jsonLdData_authorInv split: option.split)

lemma jsonLdScripts_authorInv: "authorInv m \<Longrightarrow> authorInv (jsonLdScripts e m ss)"
proof (induction ss arbitrary: m)
  case Nil
  then show ?case by simp
next
  case (Cons s ss)
  have step: "authorInv (fst (jsonLdScript e m s))" using Cons.prems by (rule jsonLdScript_authorInv)
  then have "authorInv (jsonLdScripts e (fst (jsonLdScript e m s)) ss)" by (rule Cons.IH)
  with step show ?case by (simp add: Let_def)
qed

lemma jsonLdMetadata_authorInv: "authorInv (jsonLdMetadata e doc)"
  unfolding jsonLdMetadata_def
  by (rule jsonLdScripts_authorInv) (simp add: authorInv_def emptyMetadata_def)

lemma processMetaTags_authorInv:
  "\<not> allOpenGraphAssigned (extractOpenGraphMeta doc) \<Longrightarrow> authorInv (processMetaTags e doc)"
  using validateMetadataAuthor_valid by (auto simp: processMetaTags_def Let_def authorInv_def)

lemma extractJsonLd_Author:
  "Author (extractJsonLd e doc m) =
     (if Author (jsonLdMetadata e doc) \<noteq> [] then Author (jsonLdMetadata e doc) else Author m)"
  by (simp add: extractJsonLd_def Let_def)

lemma openGraphNode_urlInv: "urlInv m \<Longrightarrow> urlInv (openGraphNode m n)"
  by (simp add: openGraphNode_def Let_def urlInv_def)

lemma foldl_openGraphNode_urlInv: "urlInv m \<Longrightarrow> urlInv (foldl openGraphNode m ns)"
proof (induction ns arbitrary: m)
  case Nil
  then show ?case by simp
next
  case (Cons n ns)
  have "urlInv (openGraphNode m n)" using Cons.prems by (rule openGraphNode_urlInv)
  then have "urlInv (foldl openGraphNode (openGraphNode m n) ns)" by (rule Cons.IH)
  then show ?case by simp
qed

lemma metaTagNode_urlInv: "urlInv (fst st) \<Longrightarrow> urlInv (fst (metaTagNode e st n))"
  by (simp add: metaTagNode_def Let_def urlInv_def)

lemma foldl_metaTagNode_urlInv: "urlInv (fst st) \<Longrightarrow> urlInv (fst (foldl (metaTagNode e) st ns))"
proof (induction ns arbitrary: st)
  case Nil
  then show ?case by simp
next
  case (Cons n ns)
  have "urlInv (fst (metaTagNode e st n))" using Cons.prems by (rule metaTagNode_urlInv)
  then have "urlInv (fst (foldl (metaTagNode e) (metaTagNode e st n) ns))" by (rule Cons.IH)
  then show ?case by simp
qed

lemma extractOpenGraphMeta_urlInv: "urlInv (extractOpenGraphMeta doc)"
  unfolding extractOpenGraphMeta_def
  by (rule foldl_openGraphNode_urlInv) (simp add: urlInv_def emptyMetadata_def)

lemma processMetaTags_urlInv: "urlInv (processMetaTags e doc)"
proof -
  have "urlInv (fst (foldl (metaTagNode e) (extractOpenGraphMeta doc, [])
          (QuerySelectorAll doc (sel_has_attr ''meta'' ''content''))))"
    by (rule foldl_metaTagNode_urlInv) (simp add: extractOpenGraphMeta_urlInv)
  then show ?thesis
    using extractOpenGraphMeta_urlInv [of doc]
    by (simp add: processMetaTags_def Let_def urlInv_def)
qed

lemma extractJsonLd_URL: "URL (extractJsonLd e doc m) = URL m"
  by (simp add: extractJsonLd_def Let_def)

lemma extractDomURL_cases:
  "extractDomURL e doc d = stringOfURL d \<or> isAbsoluteURL (extractDomURL e doc d)"
  by (simp add: extractDomURL_def Let_def)

lemma fill_Title [simp]:
  "Title (fillTitle e doc m) = (if Title m = [] then extractDomTitle e doc else Title m)"
  "Title (fillAuthor e doc m) = Title m" "Title (fillURL e doc u m) = Title m"
  "Title (fillHostname e m) = Title m" "Title (fillSitename e doc m) = Title m"
  "Title (finishSitename e m) = Title m" "Title (fillCategories e doc m) = Title m"
  "Title (fillTags e doc m) = Title m"
  by (simp_all add: fillTitle_def fillAuthor_def fillURL_def fillHostname_def fillSitename_def
      finishSitename_def fillCategories_def fillTags_def Let_def split: option.split)

lemma extractMetadata_Title:
  "Title (extractMetadata e doc u) =
     (if Title (gathered e doc) = [] then extractDomTitle e doc else Title (gathered e doc))"
  by (simp add: extractMetadata_def gathered_def)

lemma extractMetadata_Sitename_cases:
  "Sitename (extractMetadata e doc u) =
     (if sitenameFound e doc \<noteq> [] then normalizeSitename e (sitenameFound e doc)
      else if URL (extractMetadata e doc u) \<noteq> []
        then (case rxSitenameFinder2_1 e (URL (extractMetadata e doc u)) of
                Some m \<Rightarrow> m | None \<Rightarrow> [])
      else [])"
  by (simp add: extractMetadata_Sitename extractMetadata_URL finishSitename_def sitenameFound_def
      split: option.split)

lemma extractJsonLd_Title:
  "Title (extractJsonLd e doc m) = (if Title m = [] then Title (jsonLdMetadata e doc) else Title m)"
  by (simp add: extractJsonLd_def Let_def)

lemma findImportantObjects_article:
  "stringType obj = Some t \<Longrightarrow> isArticleType t \<Longrightarrow> findImportantObjects e obj = ([obj], [])"
  by (subst findImportantObjects.simps) simp

section \<open>The examples, evaluated\<close>

lemmas string_defs = HasPrefix_def TrimPrefix_def strNormalize_def Fields_def isSpace_def
  strIn_def strWordCount_def

lemmas dom_defs = QuerySelectorAll_def QuerySelector_def sel_tag_def sel_has_attr_def
  sel_attr_prefix_def sel_attr_eq_def sel_under_def sel_child_of_def sel_head_title_def
  page_def meta_property_def meta_name_def ld_json_def

lemma asciiEnv_fields:
  "strings_ToLower asciiEnv = asciiToLower" "strings_Title asciiEnv = asciiTitle"
  "strings_TrimSpace asciiEnv = asciiTrimSpace" "firstRuneIsUpper asciiEnv = asciiFirstRuneIsUpper"
  "json_decode asciiEnv = exampleDecode" "rangeRank asciiEnv = (\<lambda>obj key. 0)"
  "metaTitleSelectors asciiEnv = []"
  "metaAuthorSelectors asciiEnv = [\<lambda>doc. QuerySelectorAll doc (sel_attr_eq ''span'' ''class'' ''author'')]"
  "metaCategoriesSelectors asciiEnv = [\<lambda>doc. QuerySelectorAll doc (sel_under ''p'' (sel_tag ''a''))]"
  "metaTagsSelectors asciiEnv = [\<lambda>doc. QuerySelectorAll doc (sel_under ''p'' (sel_tag ''a''))]"
  "createAbsoluteURL asciiEnv = asciiCreateAbsoluteURL"
  "extractDomainURL asciiEnv = asciiExtractDomainURL"
  "rxTitleCleaner_1 asciiEnv = asciiTitleCleaner" "rxNameJson_1 asciiEnv = asciiNameJson"
  "rxAuthorCleaner1_Replace asciiEnv = asciiAuthorCleaner1"
  "rxAuthorCleaner2_Replace asciiEnv = asciiAuthorCleaner2"
  "rxAuthorCleaner3_Replace asciiEnv = asciiAuthorCleaner3"
  "rxDomainFinder_0 asciiEnv = asciiDomainFinder"
  "rxSitenameFinder1_1 asciiEnv = asciiSitenameFinder1"
  "rxSitenameFinder2_1 asciiEnv = asciiSitenameFinder2"
  by (simp_all add: asciiEnv_def)

lemma otherOrderEnv_fields:
  "strings_ToLower otherOrderEnv = asciiToLower"
  "strings_TrimSpace otherOrderEnv = asciiTrimSpace"
  "json_decode otherOrderEnv = exampleDecode"
  "rangeRank otherOrderEnv = (\<lambda>obj key. if key = ''alternativeHeadline'' then 0 else 1)"
  by (simp_all add: otherOrderEnv_def asciiEnv_def)

lemmas ascii_defs = asciiEnv_fields asciiToLower_def asciiLower_def asciiUpper_def upperLetters_def
  lowerLetters_def hasPrefixFold_def schemeLength_def hostOf_def afterNumberedW_def hostGroup_def
  titleTailAt_def asciiTitleCleaner_def skipOne_def nameJsonAt_def afterByVon_def
  afterParticiple_def asciiAuthorCleaner1_def rxSpace_def wordByte_def asciiTitle_def
  asciiTrimSpace_def asciiFirstRuneIsUpper_def asciiExtractDomainURL_def asciiCreateAbsoluteURL_def

lemmas meta_defs = processMetaTags_def extractOpenGraphMeta_def openGraphNode_def metaTagNode_def
  allOpenGraphAssigned_def emptyMetadata_def validateMetadataAuthor_def isAbsoluteURL_def
  rxJsonSymbol_MatchString_def metaNameAuthor_def metaNameTitle_def metaNameDescription_def
  metaNamePublisher_def

lemmas json_defs = extractJsonLd_def jsonLdMetadata_def scriptNodes_def jsonLdScript_def
  Unmarshal_def jsonLdData_def jsonLdArticle_def articleAuthor_def articleSitename_def
  articleCategories_def articleName_def articleHeadline_def personNames_def allJsonLdFound_def
  extractJsonArticleThingName_def stringType_def isArticleType_def collect_def rangeOver_def
  exampleDecode_def sectionJson_def headlineJson_def arrayJson_def publisherJson_def

subsection \<open>Meta tags\<close>

lemma openGraphTagsDoc_openGraph:
  "extractOpenGraphMeta openGraphTagsDoc =
     \<lparr>Title = ''Open Graph Title'', Author = ''Jenny Smith'', URL = ''https://example.org/test'',
      Hostname = [], Description = ''This is an Open Graph description'',
      Sitename = ''My first site'', Date = [], Categories = [], Tags = []\<rparr>"
  by (simp add: openGraphTagsDoc_def openGraphMetas_def tagMetas_def string_defs dom_defs
      meta_defs Let_def)

lemma openGraphTagsDoc_contents:
  "metaTagContents asciiEnv openGraphTagsDoc = [''news, sports'', ''politics'']"
  by (simp add: metaTagContents_def isTagMeta_def openGraphTagsDoc_def openGraphMetas_def
      tagMetas_def string_defs dom_defs ascii_defs)

lemma titleTagsDoc_openGraph: "\<not> allOpenGraphAssigned (extractOpenGraphMeta titleTagsDoc)"
  by (simp add: titleTagsDoc_def tagMetas_def string_defs dom_defs meta_defs Let_def)

lemma titleTagsDoc_contents:
  "metaTagContents asciiEnv titleTagsDoc = [''news, sports'', ''politics'']"
  by (simp add: metaTagContents_def isTagMeta_def titleTagsDoc_def tagMetas_def string_defs
      dom_defs ascii_defs)

lemma titleTagsDoc_Tags:
  "Tags (processMetaTags asciiEnv titleTagsDoc) = [''news, sports'', ''politics'']"
  by (simp add: titleTagsDoc_def tagMetas_def string_defs dom_defs meta_defs ascii_defs Let_def)

subsection \<open>Authors\<close>

lemma untypedAuthor_name:
  "extractJsonArticleThingName asciiEnv untypedAuthorArticle ''author'' [''Person''] = ''Jane Doe''"
  by (simp add: untypedAuthorArticle_def json_defs string_defs)

lemma untypedAuthor_Author:
  "Author (jsonLdArticle asciiEnv emptyMetadata untypedAuthorArticle) = ''Jane Doe''"
  by (simp add: jsonLdArticle_Author untypedAuthor_name meta_defs string_defs)

lemma domAuthorDoc_gathered: "Author (gathered asciiEnv domAuthorDoc) = []"
  by (simp add: gathered_def domAuthorDoc_def json_defs string_defs dom_defs meta_defs Let_def)

lemma domAuthorDoc_dom: "extractDomAuthor asciiEnv domAuthorDoc = ''Jenny''"
  by (simp add: extractDomAuthor_def extractDomMetaSelectors_def domAuthorDoc_def string_defs
      dom_defs ascii_defs RuneCountInString.simps List.map_filter_def Let_def)

lemma domAuthorDoc_Author: "Author (extractMetadata asciiEnv domAuthorDoc None) = ''Jenny''"
  by (simp add: extractMetadata_Author domAuthorDoc_gathered domAuthorDoc_dom)

lemma openGraphAuthorDoc_Author:
  "Author (extractMetadata asciiEnv openGraphAuthorDoc None) = ''Jenny''"
  by (simp add: extractMetadata_Author gathered_def openGraphAuthorDoc_def openGraphMetas_def
      json_defs string_defs dom_defs meta_defs Let_def)

lemma creatorDoc_openGraph: "\<not> allOpenGraphAssigned (extractOpenGraphMeta creatorDoc)"
  by (simp add: creatorDoc_def string_defs dom_defs meta_defs Let_def)

lemma creatorDoc_gathered: "Author (gathered asciiEnv creatorDoc) = ''Jenny Smith''"
  by (simp add: gathered_def creatorDoc_def json_defs string_defs dom_defs meta_defs ascii_defs
      Let_def)

subsection \<open>Site names\<close>

lemma localhostDoc_gathered:
  "gathered asciiEnv localhostDoc = emptyMetadata\<lparr>URL := ''https://localhost/a''\<rparr>"
  by (simp add: gathered_def localhostDoc_def json_defs string_defs dom_defs meta_defs Let_def)

lemma localhostDoc_dom: "extractDomSitename asciiEnv localhostDoc = []"
  by (simp add: localhostDoc_def extractDomSitename_def dom_defs string_defs)

lemma localhost_host: "asciiSitenameFinder2 ''https://localhost/a'' = Some ''localhost''"
  by (simp add: ascii_defs string_defs)

lemma localhostDoc_Sitename: "Sitename (extractMetadata asciiEnv localhostDoc None) = ''localhost''"
  by (simp add: extractMetadata_Sitename_cases sitenameFound_def extractMetadata_URL
      localhostDoc_gathered emptyMetadata_def localhostDoc_dom localhost_host asciiEnv_fields
      del: asciiSitenameFinder2.simps)

lemma digitSitenameDoc_gathered: "Sitename (gathered asciiEnv digitSitenameDoc) = ''9 news''"
  by (simp add: gathered_def digitSitenameDoc_def json_defs string_defs dom_defs meta_defs Let_def
      RuneCountInString.simps)

lemma digitSitenameDoc_Sitename:
  "Sitename (extractMetadata asciiEnv digitSitenameDoc None) = ''9 News''"
  by (simp add: extractMetadata_Sitename_cases sitenameFound_def digitSitenameDoc_gathered
      normalizeSitename_def ascii_defs string_defs)

lemma twitterSitenameDoc_gathered: "Sitename (gathered asciiEnv twitterSitenameDoc) = ''@mysite''"
  by (simp add: gathered_def twitterSitenameDoc_def json_defs string_defs dom_defs meta_defs
      ascii_defs Let_def RuneCountInString.simps)

lemma publisherDoc_json: "Sitename (jsonLdMetadata asciiEnv publisherDoc) = ''My first site''"
  by (simp add: publisherDoc_def json_defs string_defs dom_defs meta_defs ascii_defs Let_def
      findImportantObjects_article [where t = "''NewsArticle''"])

lemma publisherDoc_meta: "Sitename (processMetaTags asciiEnv publisherDoc) = ''x''"
  by (simp add: publisherDoc_def string_defs dom_defs meta_defs ascii_defs Let_def)

lemma publisher_longer: "RuneCountInString ''x'' < RuneCountInString ''My first site''"
  by (simp add: RuneCountInString.simps)

subsection \<open>Categories and tags\<close>

lemma split_empty: "rxCommaSeparator_Split [] = [[]]"
  by (simp add: rxCommaSeparator_Split_def SplitFrom.simps)

lemma split_cat1: "rxCommaSeparator_Split ''Cat1'' = [''Cat1'']"
  by (simp add: rxCommaSeparator_Split_def SplitFrom.simps separatorAt_def rxSpace_def
      isSeparator_def)

lemma split_news: "rxCommaSeparator_Split ''news, sports'' = [''news'', ''sports'']"
  by (simp add: rxCommaSeparator_Split_def SplitFrom.simps separatorAt_def afterSeparator_def
      rxSpace_def isSeparator_def)

lemma split_politics: "rxCommaSeparator_Split ''politics'' = [''politics'']"
  by (simp add: rxCommaSeparator_Split_def SplitFrom.simps separatorAt_def rxSpace_def
      isSeparator_def)

lemma sectionDoc_find:
  "findImportantObjects e
       [(''@type'', JString ''Article''), (''articleSection'', JArray [JString ''News''])]
     = ([[(''@type'', JString ''Article''), (''articleSection'', JArray [JString ''News''])]], [])"
  by (rule findImportantObjects_article [where t = "''Article''"])
     (simp_all add: stringType_def isArticleType_def HasPrefix_def)

lemma sectionDoc_json: "jsonLdMetadata asciiEnv sectionDoc = emptyMetadata\<lparr>Categories := [[]]\<rparr>"
  by (simp add: sectionDoc_def categoryLink_def json_defs string_defs dom_defs meta_defs ascii_defs
      sectionDoc_find Let_def)

lemma sectionDoc_gathered: "Categories (gathered asciiEnv sectionDoc) = [[]]"
  by (simp add: gathered_def extractJsonLd_def sectionDoc_json Let_def emptyMetadata_def)

lemma sectionDoc_dom: "extractDomCategories asciiEnv sectionDoc = [''Cat1'']"
  by (simp add: sectionDoc_def categoryLink_def extractDomCategories_def linkTexts_def dom_defs
      ascii_defs string_defs Let_def)

lemma sectionDoc_Categories: "Categories (extractMetadata asciiEnv sectionDoc None) = []"
  by (simp add: extractMetadata_Categories collectedCategories_def sectionDoc_gathered
      cleanCatTags_def split_empty string_defs)

lemma categoryDoc_gathered: "Categories (gathered asciiEnv categoryDoc) = []"
  by (simp add: gathered_def categoryDoc_def categoryLink_def json_defs dom_defs string_defs
      meta_defs Let_def)

lemma categoryDoc_dom: "extractDomCategories asciiEnv categoryDoc = [''Cat1'']"
  by (simp add: categoryDoc_def categoryLink_def extractDomCategories_def linkTexts_def dom_defs
      ascii_defs string_defs Let_def)

lemma categoryDoc_Categories: "Categories (extractMetadata asciiEnv categoryDoc None) = [''Cat1'']"
  by (simp add: extractMetadata_Categories collectedCategories_def categoryDoc_gathered
      categoryDoc_dom cleanCatTags_def split_cat1 string_defs)

lemma titleTagsDoc_final:
  "Tags (extractMetadata asciiEnv titleTagsDoc None) = [''news'', ''sports'', ''politics'']"
  by (simp add: extractMetadata_Tags collectedTags_def gathered_def extractJsonLd_Tags
      titleTagsDoc_Tags cleanCatTags_def split_news split_politics string_defs)

subsection \<open>URLs\<close>

lemma emptyDoc_relative: "URL (extractMetadata asciiEnv emptyDoc (Some ''/about'')) = ''/about''"
  by (simp add: extractMetadata_URL gathered_def emptyDoc_def json_defs extractDomURL_def
      stringOfURL_def dom_defs string_defs meta_defs Let_def)

lemma emptyDoc_absolute:
  "URL (extractMetadata asciiEnv emptyDoc (Some ''https://example.org/'')) = ''https://example.org/''"
  by (simp add: extractMetadata_URL gathered_def emptyDoc_def json_defs extractDomURL_def
      stringOfURL_def dom_defs string_defs meta_defs Let_def)

lemma about_relative: "\<not> isAbsoluteURL ''/about''"
  by (simp add: isAbsoluteURL_def Let_def HasPrefix_def)

lemma example_absolute: "isAbsoluteURL ''https://example.org/''"
  by (simp add: isAbsoluteURL_def Let_def HasPrefix_def)

subsection \<open>JSON-LD scripts\<close>

lemma headlineDoc_find:
  "findImportantObjects e
       [(''@type'', JString ''Article''), (''headline'', JString ''First Headline''),
        (''alternativeHeadline'', JString ''Second Headline'')]
     = ([[(''@type'', JString ''Article''), (''headline'', JString ''First Headline''),
          (''alternativeHeadline'', JString ''Second Headline'')]], [])"
  by (rule findImportantObjects_article [where t = "''Article''"])
     (simp_all add: stringType_def isArticleType_def HasPrefix_def)

lemma headlineDoc_first: "Title (jsonLdMetadata asciiEnv headlineDoc) = ''First Headline''"
  by (simp add: headlineDoc_def json_defs string_defs dom_defs meta_defs ascii_defs
      headlineDoc_find Let_def)

lemma headlineDoc_second: "Title (jsonLdMetadata otherOrderEnv headlineDoc) = ''Second Headline''"
  by (simp add: headlineDoc_def json_defs string_defs dom_defs meta_defs otherOrderEnv_fields
      asciiToLower_def asciiLower_def upperLetters_def lowerLetters_def asciiTrimSpace_def
      headlineDoc_find Let_def)

lemma headlineDoc_meta: "Title (processMetaTags e headlineDoc) = []"
  by (simp add: headlineDoc_def string_defs dom_defs meta_defs Let_def)

lemma arrayDoc_decode:
  "json_decode asciiEnv (strings_TrimSpace asciiEnv (TextContent (ld_json arrayJson))) =
     Some (JArray [JObject [(''@type'', JString ''Article''), (''name'', JString ''My Title Here'')]])"
  by (simp add: ld_json_def arrayJson_def exampleDecode_def sectionJson_def headlineJson_def
      asciiEnv_fields asciiTrimSpace_def isSpace_def)


section \<open>The claims\<close>

subsection \<open>C1: tags when OpenGraph has filled the five fields\<close>

text \<open>
  C1, as the code has it. When the OpenGraph pass has set all five of Title, Author, URL,
  Description and Sitename, \<open>processMetaTags\<close> returns the OpenGraph record at once, and
  its Tags are empty: the scan does not run. Otherwise the scan runs, and Tags holds, in
  document order, the normalised content of every meta element whose normalised content
  is not empty and whose property is \<open>article:tag\<close>, or that has no property and whose
  lower-cased name is \<open>keywords\<close>.
\<close>

theorem processMetaTags_Tags:
  "Tags (processMetaTags e doc) =
     (if allOpenGraphAssigned (extractOpenGraphMeta doc) then [] else metaTagContents e doc)"
  by (simp add: processMetaTags_def Let_def extractOpenGraphMeta_Tags foldl_metaTagNode_Tags
      metaTagContents_def)

text \<open>
  C1, an instance of the theorem: a page with \<open>og:title\<close> alone, a \<open>keywords\<close> element and
  an \<open>article:tag\<close> element.
\<close>

theorem processMetaTags_Tags_witness:
  "\<not> allOpenGraphAssigned (extractOpenGraphMeta titleTagsDoc)
   \<and> Tags (processMetaTags asciiEnv titleTagsDoc) = [''news, sports'', ''politics'']"
  using processMetaTags_Tags [of asciiEnv titleTagsDoc]
  by (simp add: titleTagsDoc_openGraph titleTagsDoc_contents)

text \<open>
  C1 as the spec states it fails: the same two tag elements after the five OpenGraph
  elements of the repository's own test page give no tag.
\<close>

theorem processMetaTags_Tags_counterexample:
  "allOpenGraphAssigned (extractOpenGraphMeta openGraphTagsDoc)
   \<and> metaTagContents asciiEnv openGraphTagsDoc = [''news, sports'', ''politics'']
   \<and> Tags (processMetaTags asciiEnv openGraphTagsDoc) = []"
  by (simp add: openGraphTagsDoc_contents processMetaTags_def openGraphTagsDoc_openGraph
      allOpenGraphAssigned_def)

subsection \<open>C2: the type of an author object\<close>

text \<open>
  C2, as the code has it. When the \<open>author\<close> of an article is a JSON object, the name
  extracted from it is the \<open>name\<close> of the object unless the object has an \<open>@type\<close> that is
  a string other than \<open>Person\<close>: then it is empty. An object with no \<open>@type\<close>, or with
  one that is not a string, gives its name. When no Author was found before, the Author
  after the article is this name after the validation.
\<close>

theorem author_object_type:
  assumes "map_of article ''author'' = Some (JObject author)"
  shows "extractJsonArticleThingName e article ''author'' [''Person''] =
           (case stringType author of
              Some t \<Rightarrow> if t = ''Person'' then objectName author else []
            | None \<Rightarrow> objectName author)
         \<and> (Author md = [] \<longrightarrow>
              Author (jsonLdArticle e md article) =
                validateMetadataAuthor
                  (case stringType author of
                     Some t \<Rightarrow> if t = ''Person'' then objectName author else []
                   | None \<Rightarrow> objectName author))"
proof -
  have "extractJsonArticleThingName e article ''author'' [''Person''] =
           (case stringType author of
              Some t \<Rightarrow> if t = ''Person'' then objectName author else []
            | None \<Rightarrow> objectName author)"
    using assms
    by (simp add: extractJsonArticleThingName_def stringType_def objectName_def strIn_def
        split: option.split json.split)
  then show ?thesis by (simp add: jsonLdArticle_Author)
qed

text \<open>
  C2, an instance of the theorem: the article of scenario S8, whose author is an
  \<open>Organization\<close>, gives no author.
\<close>

theorem author_object_type_witness:
  "map_of organizationArticle ''author'' = Some (JObject organizationAuthor)
   \<and> Author emptyMetadata = []
   \<and> stringType organizationAuthor = Some ''Organization''
   \<and> extractJsonArticleThingName asciiEnv organizationArticle ''author'' [''Person''] = []
   \<and> Author (jsonLdArticle asciiEnv emptyMetadata organizationArticle) = []"
proof -
  have a: "map_of organizationArticle ''author'' = Some (JObject organizationAuthor)"
    by (simp add: organizationArticle_def)
  have t: "stringType organizationAuthor = Some ''Organization''"
    by (simp add: organizationAuthor_def stringType_def)
  show ?thesis
    using author_object_type [OF a, of asciiEnv emptyMetadata] a t
    by (simp add: emptyMetadata_def validateMetadataAuthor_def)
qed

text \<open>
  C2 as the spec states it fails: an author object with no \<open>@type\<close> gives its name, so
  the name is taken although the type does not equal \<open>Person\<close>.
\<close>

theorem author_object_type_counterexample:
  "map_of untypedAuthorArticle ''author'' = Some (JObject [(''name'', JString ''Jane Doe'')])
   \<and> stringType [(''name'', JString ''Jane Doe'')] = None
   \<and> extractJsonArticleThingName asciiEnv untypedAuthorArticle ''author'' [''Person''] = ''Jane Doe''
   \<and> Author (jsonLdArticle asciiEnv emptyMetadata untypedAuthorArticle) = ''Jane Doe''"
proof -
  have "map_of untypedAuthorArticle ''author'' = Some (JObject [(''name'', JString ''Jane Doe'')])"
    by (simp add: untypedAuthorArticle_def)
  moreover have "stringType [(''name'', JString ''Jane Doe'')] = None"
    by (simp add: stringType_def)
  ultimately show ?thesis
    using untypedAuthor_name untypedAuthor_Author by simp
qed

subsection \<open>C3: the shape of the author\<close>

text \<open>
  C3, as the code has it. If JSON-LD gave an author, or the scan of the meta tags ran
  (OpenGraph did not fill all five fields), and the author after the meta tags and JSON-LD
  is not empty, then this is the returned Author, and it has a space, does not start with
  \<open>http\<close>, and has no brace and no backslash. If the meta tags and JSON-LD gave no
  author, the returned Author is what \<open>extractDomAuthor\<close> returns, which is cleaned and
  title-cased but not validated.
\<close>

theorem author_validated:
  "((Author (jsonLdMetadata e doc) \<noteq> [] \<or> \<not> allOpenGraphAssigned (extractOpenGraphMeta doc))
      \<and> Author (gathered e doc) \<noteq> []
    \<longrightarrow> Author (extractMetadata e doc u) = Author (gathered e doc)
        \<and> validAuthor (Author (extractMetadata e doc u)))
   \<and> (Author (gathered e doc) = []
        \<longrightarrow> Author (extractMetadata e doc u) = extractDomAuthor e doc)"
proof (intro conjI impI)
  assume "Author (gathered e doc) = []"
  then show "Author (extractMetadata e doc u) = extractDomAuthor e doc"
    by (simp add: extractMetadata_Author)
next
  assume h: "(Author (jsonLdMetadata e doc) \<noteq> [] \<or> \<not> allOpenGraphAssigned (extractOpenGraphMeta doc))
      \<and> Author (gathered e doc) \<noteq> []"
  then have src: "Author (jsonLdMetadata e doc) \<noteq> [] \<or> \<not> allOpenGraphAssigned (extractOpenGraphMeta doc)"
    and ne: "Author (gathered e doc) \<noteq> []" by simp_all
  show eq: "Author (extractMetadata e doc u) = Author (gathered e doc)"
    using ne by (simp add: extractMetadata_Author)
  have "validAuthor (Author (gathered e doc))"
  proof (cases "Author (jsonLdMetadata e doc) \<noteq> []")
    case True
    then show ?thesis
      using jsonLdMetadata_authorInv [of e doc]
      by (simp add: gathered_def extractJsonLd_Author authorInv_def)
  next
    case False
    with src have "authorInv (processMetaTags e doc)" by (simp add: processMetaTags_authorInv)
    with False ne show ?thesis by (simp add: gathered_def extractJsonLd_Author authorInv_def)
  qed
  with eq show "validAuthor (Author (extractMetadata e doc u))" by simp
qed

text \<open>
  C3, two instances of the theorem: a page with \<open>dc.creator\<close> for its first part, a page
  with an author in a \<open>span\<close> for its second part.
\<close>

theorem author_validated_witness:
  "\<not> allOpenGraphAssigned (extractOpenGraphMeta creatorDoc)
   \<and> Author (gathered asciiEnv creatorDoc) = ''Jenny Smith''
   \<and> Author (extractMetadata asciiEnv creatorDoc None) = ''Jenny Smith''
   \<and> validAuthor (Author (extractMetadata asciiEnv creatorDoc None))
   \<and> Author (gathered asciiEnv domAuthorDoc) = []
   \<and> Author (extractMetadata asciiEnv domAuthorDoc None) = extractDomAuthor asciiEnv domAuthorDoc"
proof -
  have og: "\<not> allOpenGraphAssigned (extractOpenGraphMeta creatorDoc)"
    by (rule creatorDoc_openGraph)
  have ne: "Author (gathered asciiEnv creatorDoc) \<noteq> []"
    by (simp add: creatorDoc_gathered)
  have none: "Author (gathered asciiEnv domAuthorDoc) = []"
    by (rule domAuthorDoc_gathered)
  from author_validated [of asciiEnv creatorDoc None] og ne
  have "Author (extractMetadata asciiEnv creatorDoc None) = Author (gathered asciiEnv creatorDoc)"
    and "validAuthor (Author (extractMetadata asciiEnv creatorDoc None))"
    by blast+
  moreover from author_validated [of asciiEnv domAuthorDoc None] none
  have "Author (extractMetadata asciiEnv domAuthorDoc None) = extractDomAuthor asciiEnv domAuthorDoc"
    by blast
  ultimately show ?thesis
    using og none by (simp only: creatorDoc_gathered simp_thms)
qed

text \<open>
  C3 as the spec states it fails: an author that the DOM gives is returned with no space
  in it. So is an \<open>og:author\<close> when OpenGraph fills all five fields and the scan, with
  its validation, does not run.
\<close>

theorem author_validated_counterexample:
  "Author (extractMetadata asciiEnv domAuthorDoc None) = ''Jenny''
   \<and> \<not> validAuthor (Author (extractMetadata asciiEnv domAuthorDoc None))
   \<and> Author (extractMetadata asciiEnv openGraphAuthorDoc None) = ''Jenny''"
  by (simp add: domAuthorDoc_Author openGraphAuthorDoc_Author validAuthor_def)

subsection \<open>C4: the site name\<close>

text \<open>
  C4, as the code has it. When the sources give a site name, the returned Sitename is
  this name without one leading \<open>@\<close>, passed through \<open>strings.Title\<close> exactly when the
  stripped name has no dot and its first rune is not upper-case (a lower-case letter, but
  also a digit, a sign, or no rune at all), and returned as it is otherwise. When they give
  none and the URL is set, the Sitename is the host that \<open>rxSitenameFinder2\<close> finds in the
  URL, as it stands.
\<close>

theorem sitename_normalized:
  "Sitename (extractMetadata e doc u) =
     (if sitenameFound e doc \<noteq> []
      then (let sitename = (if HasPrefix (sitenameFound e doc) ''@''
                            then drop 1 (sitenameFound e doc) else sitenameFound e doc)
            in if \<not> Contains sitename ''.'' \<and> \<not> firstRuneIsUpper e sitename
               then strings_Title e sitename else sitename)
      else if URL (extractMetadata e doc u) \<noteq> []
        then (case rxSitenameFinder2_1 e (URL (extractMetadata e doc u)) of
                Some m \<Rightarrow> m | None \<Rightarrow> [])
      else [])"
  by (simp add: extractMetadata_Sitename_cases normalizeSitename_def TrimPrefix_def Let_def)

text \<open>C4, an instance of the theorem: the Twitter name \<open>@mysite\<close> becomes \<open>Mysite\<close>.\<close>

theorem sitename_normalized_witness:
  "sitenameFound asciiEnv twitterSitenameDoc = ''@mysite''
   \<and> Sitename (extractMetadata asciiEnv twitterSitenameDoc None) = ''Mysite''"
  using sitename_normalized [of asciiEnv twitterSitenameDoc None]
  by (simp add: sitenameFound_def twitterSitenameDoc_gathered ascii_defs string_defs)

text \<open>
  C4 as the spec states it fails: a site name taken from the URL has no dot and starts
  with a lower-case letter; and a name that starts with a digit is title-cased although
  its first character is not lower-case, and still has no upper-case first rune.
\<close>

theorem sitename_normalized_counterexample:
  "Sitename (extractMetadata asciiEnv localhostDoc None) = ''localhost''
   \<and> Sitename (gathered asciiEnv digitSitenameDoc) = ''9 news''
   \<and> Sitename (extractMetadata asciiEnv digitSitenameDoc None) = ''9 News''"
  by (simp add: localhostDoc_Sitename digitSitenameDoc_gathered digitSitenameDoc_Sitename)

subsection \<open>C5: an article section that is not a string\<close>

text \<open>
  C5 fails on the code. An \<open>articleSection\<close> that is an array makes the loop over the
  articles append the empty string, so the categories of JSON-LD are not empty, take the
  place of the categories found so far, and keep \<open>extractDomCategories\<close> from running:
  the page has a category link, which alone gives \<open>Cat1\<close>, and its Categories are
  empty.
\<close>

theorem non_string_section_appends:
  "Categories (jsonLdMetadata asciiEnv sectionDoc) = [[]]
   \<and> Categories (gathered asciiEnv sectionDoc) = [[]]
   \<and> extractDomCategories asciiEnv sectionDoc = [''Cat1'']
   \<and> Categories (extractMetadata asciiEnv sectionDoc None) = []
   \<and> Categories (extractMetadata asciiEnv categoryDoc None) = [''Cat1'']"
  by (simp add: sectionDoc_json sectionDoc_gathered sectionDoc_dom sectionDoc_Categories
      categoryDoc_Categories)

subsection \<open>C6: the site name of JSON-LD\<close>

text \<open>
  C6. After the merge of \<open>extractJsonLd\<close> the Sitename is the one of JSON-LD if it has
  more runes than the one before, and the one before otherwise.
\<close>

theorem extractJsonLd_Sitename:
  "Sitename (extractJsonLd e doc m) =
     (if RuneCountInString (Sitename (jsonLdMetadata e doc)) > RuneCountInString (Sitename m)
      then Sitename (jsonLdMetadata e doc) else Sitename m)"
  by (simp add: extractJsonLd_def Let_def)

text \<open>
  C6, an instance of the theorem: scenario S6, with \<open>og:site_name\<close> \<open>x\<close> and the publisher
  \<open>My first site\<close>.
\<close>

theorem extractJsonLd_Sitename_witness:
  "Sitename (processMetaTags asciiEnv publisherDoc) = ''x''
   \<and> Sitename (jsonLdMetadata asciiEnv publisherDoc) = ''My first site''
   \<and> Sitename (extractJsonLd asciiEnv publisherDoc (processMetaTags asciiEnv publisherDoc))
       = ''My first site''"
  using extractJsonLd_Sitename [of asciiEnv publisherDoc "processMetaTags asciiEnv publisherDoc"]
  by (simp add: publisherDoc_json publisherDoc_meta publisher_longer)

subsection \<open>C7: the URL\<close>

text \<open>
  C7, as the code has it. The returned URL is empty, or absolute, or the default URL as
  the caller gave it; so it is empty or absolute whenever the default URL is absent or
  absolute.
\<close>

theorem url_empty_absolute_or_default:
  "(URL (extractMetadata e doc d) = [] \<or> isAbsoluteURL (URL (extractMetadata e doc d))
      \<or> d = Some (URL (extractMetadata e doc d)))
   \<and> ((case d of None \<Rightarrow> True | Some u \<Rightarrow> isAbsoluteURL u)
        \<longrightarrow> URL (extractMetadata e doc d) = [] \<or> isAbsoluteURL (URL (extractMetadata e doc d)))"
proof -
  have g: "URL (gathered e doc) = [] \<or> isAbsoluteURL (URL (gathered e doc))"
    using processMetaTags_urlInv [of e doc] by (simp add: gathered_def extractJsonLd_URL urlInv_def)
  show ?thesis
  proof (cases "URL (gathered e doc) = []")
    case False
    with g show ?thesis by (simp add: extractMetadata_URL)
  next
    case True
    then have u: "URL (extractMetadata e doc d) = extractDomURL e doc d"
      by (simp add: extractMetadata_URL)
    from extractDomURL_cases [of e doc d] show ?thesis
      unfolding u by (cases d) (auto simp: stringOfURL_def)
  qed
qed

text \<open>C7, an instance of the theorem: an empty page and an absolute default URL.\<close>

theorem url_empty_absolute_or_default_witness:
  "isAbsoluteURL ''https://example.org/''
   \<and> URL (extractMetadata asciiEnv emptyDoc (Some ''https://example.org/'')) = ''https://example.org/''
   \<and> isAbsoluteURL (URL (extractMetadata asciiEnv emptyDoc (Some ''https://example.org/'')))"
  using url_empty_absolute_or_default [of asciiEnv emptyDoc "Some ''https://example.org/''"]
  by (simp add: emptyDoc_absolute example_absolute)

text \<open>
  C7 as the spec states it fails: with a default URL that is a path, an empty page gets
  this path as its URL.
\<close>

theorem url_empty_absolute_or_default_counterexample:
  "URL (extractMetadata asciiEnv emptyDoc (Some ''/about'')) = ''/about''
   \<and> \<not> isAbsoluteURL (URL (extractMetadata asciiEnv emptyDoc (Some ''/about'')))"
  by (simp add: emptyDoc_relative about_relative)

subsection \<open>C8: categories and tags\<close>

text \<open>
  C8. Every element of the returned Categories and Tags is not empty, is unchanged by the
  normalisation, has no white space at either end and has no comma and no semicolon; the
  two lists are what \<open>cleanCatTags\<close> makes of the collected entries: each split at the
  separators, each piece normalised, the empty pieces dropped.
\<close>

theorem categories_tags_clean:
  "list_all cleanEntry (Categories (extractMetadata e doc u))
   \<and> list_all cleanEntry (Tags (extractMetadata e doc u))
   \<and> Categories (extractMetadata e doc u) = cleanCatTags (collectedCategories e doc)
   \<and> Tags (extractMetadata e doc u) = cleanCatTags (collectedTags e doc)"
  by (simp add: extractMetadata_Categories extractMetadata_Tags list_all_iff cleanCatTags_entry)

text \<open>
  C8, an instance of the theorem: the keywords \<open>news, sports\<close> and the tag \<open>politics\<close>
  give three clean tags.
\<close>

theorem categories_tags_clean_witness:
  "Tags (extractMetadata asciiEnv titleTagsDoc None) = [''news'', ''sports'', ''politics'']
   \<and> list_all cleanEntry [''news'', ''sports'', ''politics'']"
proof -
  have "list_all cleanEntry (Tags (extractMetadata asciiEnv titleTagsDoc None))"
    using categories_tags_clean [of asciiEnv titleTagsDoc None] by blast
  then show ?thesis by (simp only: titleTagsDoc_final simp_thms)
qed

subsection \<open>C9: one result for one input\<close>

text \<open>
  C9 fails on the code. The headline loop ranges over a Go map, whose order is not
  specified: for an article with a \<open>headline\<close> and an \<open>alternativeHeadline\<close>, two
  environments that differ in the order of the \<open>range\<close> alone give two titles.
\<close>

theorem headline_depends_on_range_order:
  "otherOrderEnv = asciiEnv\<lparr>rangeRank := rangeRank otherOrderEnv\<rparr>
   \<and> Title (extractMetadata asciiEnv headlineDoc None) = ''First Headline''
   \<and> Title (extractMetadata otherOrderEnv headlineDoc None) = ''Second Headline''"
  by (simp add: otherOrderEnv_def extractMetadata_Title gathered_def extractJsonLd_Title
      headlineDoc_meta headlineDoc_first headlineDoc_second [unfolded otherOrderEnv_def])

subsection \<open>C10: a script that is not an object\<close>

text \<open>
  C10. When the text of a script is JSON whose value is not an object, the round of the
  loop for this script leaves the record as it is; and but for \<open>null\<close>, which decodes
  into an empty map without an error, the loop goes on with the next script as it does
  after a syntax error.
\<close>

theorem non_object_script_skipped:
  assumes "json_decode e (strings_TrimSpace e (TextContent script)) = Some v"
    and "\<forall>obj. v \<noteq> JObject obj"
  shows "fst (jsonLdScript e md script) = md
         \<and> (v \<noteq> JNull \<longrightarrow> jsonLdScripts e md (script # rest) = jsonLdScripts e md rest)"
proof (cases v)
  case JNull
  with assms show ?thesis by (simp add: jsonLdScript_def Unmarshal_def Let_def jsonLdData_Nil)
next
  case (JObject obj)
  with assms show ?thesis by simp
qed (use assms in \<open>simp_all add: jsonLdScript_def Unmarshal_def Let_def\<close>)

text \<open>
  C10, an instance of the theorem: a script whose text is an array with one article in
  it gives nothing.
\<close>

theorem non_object_script_skipped_witness:
  "json_decode asciiEnv (strings_TrimSpace asciiEnv (TextContent (ld_json arrayJson))) =
     Some (JArray [JObject [(''@type'', JString ''Article''), (''name'', JString ''My Title Here'')]])
   \<and> fst (jsonLdScript asciiEnv emptyMetadata (ld_json arrayJson)) = emptyMetadata
   \<and> jsonLdScripts asciiEnv emptyMetadata [ld_json arrayJson] = emptyMetadata"
proof -
  have "\<forall>obj. JArray [JObject [(''@type'', JString ''Article''), (''name'', JString ''My Title Here'')]]
          \<noteq> JObject obj"
    by simp
  from non_object_script_skipped [OF arrayDoc_decode this, of emptyMetadata "[]"]
  have "fst (jsonLdScript asciiEnv emptyMetadata (ld_json arrayJson)) = emptyMetadata"
    and "jsonLdScripts asciiEnv emptyMetadata [ld_json arrayJson] = jsonLdScripts asciiEnv emptyMetadata []"
    by simp_all
  then show ?thesis using arrayDoc_decode by (simp del: jsonLdScripts.simps(2))
qed

end
